theory Spec2Isabelle
  imports Main
begin

section \<open>Cloud configuration resolver of gophercloud-utils (package clientconfig)\<close>

text \<open>
  A shallow embedding of \<^verbatim>\<open>GetCloudFromYAML\<close>, \<^verbatim>\<open>AuthOptions\<close>,
  \<^verbatim>\<open>determineIdentityAPI\<close>, \<^verbatim>\<open>v2auth\<close>, \<^verbatim>\<open>v3auth\<close> and their helpers.
  Go's \<^verbatim>\<open>(value, error)\<close> results are sums \<open>error + 'a\<close>; a pointer that may be
  \<^verbatim>\<open>nil\<close> is an \<open>option\<close>; a \<^verbatim>\<open>map[string]Cloud\<close> is an association list read
  through \<open>map_of\<close>, and a map that may be \<^verbatim>\<open>nil\<close> is an option of one. The process
  environment is a function from variable names to values, the empty string for an unset
  variable (what \<^verbatim>\<open>env.Getenv\<close> returns).
\<close>

subsection \<open>Errors\<close>

datatype error =
    ErrNotExist                 \<comment> \<open>\<^verbatim>\<open>os.ErrNotExist\<close>\<close>
  | ErrOther string             \<comment> \<open>any other failure of reading or parsing a file\<close>
  | Errorf string               \<comment> \<open>\<^verbatim>\<open>fmt.Errorf\<close> with no wrapped error\<close>
  | Wrapf string error          \<comment> \<open>\<^verbatim>\<open>fmt.Errorf("...: %w", err)\<close>\<close>
  | ErrMissingInput string      \<comment> \<open>\<^verbatim>\<open>gophercloud.ErrMissingInput{Argument: ...}\<close>\<close>
  | NilPointerPanic             \<comment> \<open>dereference of a nil pointer\<close>

text \<open>\<^verbatim>\<open>errors.Is(err, os.ErrNotExist)\<close>: looks through the chain of wrapped errors.\<close>

fun errors_Is_NotExist :: "error \<Rightarrow> bool" where
  "errors_Is_NotExist ErrNotExist = True"
| "errors_Is_NotExist (Wrapf msg e) = errors_Is_NotExist e"
| "errors_Is_NotExist e = False"

subsection \<open>Data model\<close>

text \<open>
  The struct declarations of \<^verbatim>\<open>Cloud\<close>, \<^verbatim>\<open>Region\<close> and \<^verbatim>\<open>AuthInfo\<close> are not among
  the sources; the types below carry the fields that the functions of this file read and
  write, with the Go types those uses imply (\<^verbatim>\<open>AuthInfo *AuthInfo\<close>, \<^verbatim>\<open>Verify *bool\<close>,
  \<^verbatim>\<open>Regions []Region\<close>, \<^verbatim>\<open>AllowReauth bool\<close>, strings otherwise).
\<close>

record AuthInfo =
  AuthURL :: string
  Token :: string
  Username :: string
  UserID :: string
  Password :: string
  ProjectID :: string
  ProjectName :: string
  DomainID :: string
  DomainName :: string
  DefaultDomain :: string
  ProjectDomainID :: string
  ProjectDomainName :: string
  UserDomainID :: string
  UserDomainName :: string
  ApplicationCredentialID :: string
  ApplicationCredentialName :: string
  ApplicationCredentialSecret :: string
  SystemScope :: string
  AllowReauth :: bool

datatype Cloud = MkCloud
    (Cloud: string)
    (Profile: string)
    (AuthInfo: "AuthInfo option")
    (AuthType: string)
    (RegionName: string)
    (Regions: "Region list option")
    (EndpointType: string)
    (Interface: string)
    (IdentityAPIVersion: string)
    (VolumeAPIVersion: string)
    (Verify: "bool option")
    (CACertFile: string)
    (ClientCertFile: string)
    (ClientKeyFile: string)
and Region = MkRegion (Name: string) (Values: Cloud)

text \<open>The zero values \<^verbatim>\<open>AuthInfo{}\<close> and \<^verbatim>\<open>Cloud{}\<close>.\<close>

definition AuthInfo_zero :: AuthInfo where
  "AuthInfo_zero = \<lparr>AuthURL = [], Token = [], Username = [], UserID = [], Password = [],
     ProjectID = [], ProjectName = [], DomainID = [], DomainName = [], DefaultDomain = [],
     ProjectDomainID = [], ProjectDomainName = [], UserDomainID = [], UserDomainName = [],
     ApplicationCredentialID = [], ApplicationCredentialName = [],
     ApplicationCredentialSecret = [], SystemScope = [], AllowReauth = False\<rparr>"

definition Cloud_zero :: Cloud where
  "Cloud_zero = MkCloud [] [] None [] [] None [] [] [] [] None [] [] []"

text \<open>Assignments to single fields of a \<^verbatim>\<open>Cloud\<close>.\<close>

fun set_AuthInfo :: "AuthInfo option \<Rightarrow> Cloud \<Rightarrow> Cloud" where
  "set_AuthInfo v (MkCloud c p ai aty rn rs et itf ida vol vf ca cc ck) =
     MkCloud c p v aty rn rs et itf ida vol vf ca cc ck"

fun set_Verify :: "bool option \<Rightarrow> Cloud \<Rightarrow> Cloud" where
  "set_Verify v (MkCloud c p ai aty rn rs et itf ida vol vf ca cc ck) =
     MkCloud c p ai aty rn rs et itf ida vol v ca cc ck"

fun set_EndpointType :: "string \<Rightarrow> Cloud \<Rightarrow> Cloud" where
  "set_EndpointType v (MkCloud c p ai aty rn rs et itf ida vol vf ca cc ck) =
     MkCloud c p ai aty rn rs v itf ida vol vf ca cc ck"

fun set_Interface :: "string \<Rightarrow> Cloud \<Rightarrow> Cloud" where
  "set_Interface v (MkCloud c p ai aty rn rs et itf ida vol vf ca cc ck) =
     MkCloud c p ai aty rn rs et v ida vol vf ca cc ck"

text \<open>
  \<^verbatim>\<open>ClientOpts\<close>. The HTTP client plays no part in resolution and is left out; the
  \<^verbatim>\<open>YAMLOpts\<close> loader is passed separately (see \<open>YAMLOptsBuilder\<close>).
\<close>

record ClientOpts =
  opts_Cloud :: string
  opts_EnvPrefix :: string
  opts_AuthType :: string
  opts_AuthInfo :: "AuthInfo option"
  opts_RegionName :: string
  opts_EndpointType :: string

definition ClientOpts_zero :: ClientOpts where
  "ClientOpts_zero = \<lparr>opts_Cloud = [], opts_EnvPrefix = [], opts_AuthType = [],
     opts_AuthInfo = None, opts_RegionName = [], opts_EndpointType = []\<rparr>"

text \<open>
  A \<^verbatim>\<open>map[string]Cloud\<close>: \<open>None\<close> is the nil map. \<open>lookup\<close> is \<^verbatim>\<open>v, ok := m[k]\<close>
  (the zero value and \<^verbatim>\<open>false\<close> on a miss, also on a nil map), \<open>len_map\<close> is
  \<^verbatim>\<open>len(m)\<close>, the number of keys.
\<close>

type_synonym cloudsMap = "(string \<times> Cloud) list option"

definition entries :: "cloudsMap \<Rightarrow> (string \<times> Cloud) list" where
  "entries m = (case m of None \<Rightarrow> [] | Some kvs \<Rightarrow> kvs)"

definition lookup :: "cloudsMap \<Rightarrow> string \<Rightarrow> Cloud option" where
  "lookup m k = map_of (entries m) k"

definition len_map :: "cloudsMap \<Rightarrow> nat" where
  "len_map m = length (remdups (map fst (entries m)))"

text \<open>
  \<^verbatim>\<open>for _, v := range m { cloud = &v }\<close> on a map with exactly one key: the value of
  that key.
\<close>

definition range_last :: "cloudsMap \<Rightarrow> Cloud option" where
  "range_last m = (case entries m of [] \<Rightarrow> None | (k, v) # rest \<Rightarrow> Some v)"

text \<open>The process environment and \<^verbatim>\<open>env.Getenv\<close>.\<close>

type_synonym environ = "string \<Rightarrow> string"

definition env_of :: "(string \<times> string) list \<Rightarrow> environ" where
  "env_of kvs k = (case map_of kvs k of None \<Rightarrow> [] | Some v \<Rightarrow> v)"

subsection \<open>Helpers that are not among the sources\<close>

text \<open>
  Modelled from the spec: \<^verbatim>\<open>defaultIfEmpty\<close> is called by \<^verbatim>\<open>GetCloudFromYAML\<close> and
  defined in a file that is not among the sources. The spec describes its use as "explicit
  \<^verbatim>\<open>profile\<close> field, or falls back to the \<^verbatim>\<open>cloud\<close> field".
\<close>

definition defaultIfEmpty :: "string \<Rightarrow> string \<Rightarrow> string" where
  "defaultIfEmpty v defaultValue = (if v = [] then defaultValue else v)"

text \<open>
  Modelled from the spec: \<^verbatim>\<open>mergeClouds\<close> is called three times by
  \<^verbatim>\<open>GetCloudFromYAML\<close> and defined in a file that is not among the sources. The spec
  gives it as \<^verbatim>\<open>mergeClouds(low, high)\<close>: "field-by-field, non-zero fields of
  \<^verbatim>\<open>high\<close> override \<^verbatim>\<open>low\<close>; zero-valued fields of \<^verbatim>\<open>high\<close> retain
  \<^verbatim>\<open>low\<close>'s value", defined "for every field of Cloud/AuthInfo". So the second
  parameter overrides the first. Both arguments are \<^verbatim>\<open>interface{}\<close> values that hold a
  \<^verbatim>\<open>Cloud\<close> or a \<^verbatim>\<open>*Cloud\<close>; a nil pointer has no field set and merges as the zero
  value. The callers test the returned error; the field-wise merge of the spec has none.
  \<open>override_field zero hi lo\<close> is one field of the result, and \<open>mergeCloudFields hi lo\<close>
  the result, with \<open>hi\<close> the overriding value.
\<close>

definition override_field :: "'a \<Rightarrow> 'a \<Rightarrow> 'a \<Rightarrow> 'a" where
  "override_field zero hi lo = (if hi = zero then lo else hi)"

definition mergeAuthInfo :: "AuthInfo \<Rightarrow> AuthInfo \<Rightarrow> AuthInfo" where
  "mergeAuthInfo hi lo =
     \<lparr>AuthURL = override_field [] (AuthURL hi) (AuthURL lo),
      Token = override_field [] (Token hi) (Token lo),
      Username = override_field [] (Username hi) (Username lo),
      UserID = override_field [] (UserID hi) (UserID lo),
      Password = override_field [] (Password hi) (Password lo),
      ProjectID = override_field [] (ProjectID hi) (ProjectID lo),
      ProjectName = override_field [] (ProjectName hi) (ProjectName lo),
      DomainID = override_field [] (DomainID hi) (DomainID lo),
      DomainName = override_field [] (DomainName hi) (DomainName lo),
      DefaultDomain = override_field [] (DefaultDomain hi) (DefaultDomain lo),
      ProjectDomainID = override_field [] (ProjectDomainID hi) (ProjectDomainID lo),
      ProjectDomainName = override_field [] (ProjectDomainName hi) (ProjectDomainName lo),
      UserDomainID = override_field [] (UserDomainID hi) (UserDomainID lo),
      UserDomainName = override_field [] (UserDomainName hi) (UserDomainName lo),
      ApplicationCredentialID =
        override_field [] (ApplicationCredentialID hi) (ApplicationCredentialID lo),
      ApplicationCredentialName =
        override_field [] (ApplicationCredentialName hi) (ApplicationCredentialName lo),
      ApplicationCredentialSecret =
        override_field [] (ApplicationCredentialSecret hi) (ApplicationCredentialSecret lo),
      SystemScope = override_field [] (SystemScope hi) (SystemScope lo),
      AllowReauth = override_field False (AllowReauth hi) (AllowReauth lo)\<rparr>"

definition mergeAuthInfoPtr :: "AuthInfo option \<Rightarrow> AuthInfo option \<Rightarrow> AuthInfo option" where
  "mergeAuthInfoPtr hi lo =
     (case hi of
        None \<Rightarrow> lo
      | Some h \<Rightarrow> (case lo of None \<Rightarrow> Some h | Some l \<Rightarrow> Some (mergeAuthInfo h l)))"

definition mergeCloudFields :: "Cloud \<Rightarrow> Cloud \<Rightarrow> Cloud" where
  "mergeCloudFields hi lo =
     MkCloud
       (override_field [] (Cloud hi) (Cloud lo))
       (override_field [] (Profile hi) (Profile lo))
       (mergeAuthInfoPtr (AuthInfo hi) (AuthInfo lo))
       (override_field [] (AuthType hi) (AuthType lo))
       (override_field [] (RegionName hi) (RegionName lo))
       (override_field None (Regions hi) (Regions lo))
       (override_field [] (EndpointType hi) (EndpointType lo))
       (override_field [] (Interface hi) (Interface lo))
       (override_field [] (IdentityAPIVersion hi) (IdentityAPIVersion lo))
       (override_field [] (VolumeAPIVersion hi) (VolumeAPIVersion lo))
       (override_field None (Verify hi) (Verify lo))
       (override_field [] (CACertFile hi) (CACertFile lo))
       (override_field [] (ClientCertFile hi) (ClientCertFile lo))
       (override_field [] (ClientKeyFile hi) (ClientKeyFile lo))"

definition deref :: "Cloud option \<Rightarrow> Cloud" where
  "deref p = (case p of None \<Rightarrow> Cloud_zero | Some c \<Rightarrow> c)"

definition mergeClouds :: "Cloud option \<Rightarrow> Cloud option \<Rightarrow> error + Cloud" where
  "mergeClouds low high = Inr (mergeCloudFields (deref high) (deref low))"

subsection \<open>Loading the three documents\<close>

text \<open>
  \<^verbatim>\<open>FindAndReadCloudsYAML\<close>, \<^verbatim>\<open>FindAndReadSecureCloudsYAML\<close> and
  \<^verbatim>\<open>FindAndReadPublicCloudsYAML\<close> search the file system, and \<^verbatim>\<open>yaml.Unmarshal\<close>
  belongs to a library; the loaders take the outcome of the read (an error or the file's
  content) and the parser as parameters. The parser returns the \<^verbatim>\<open>Clouds\<close> field of the
  decoded document, nil when the document has none.
\<close>

type_synonym unmarshal = "string \<Rightarrow> error + cloudsMap"

definition LoadCloudsYAML :: "error + string \<Rightarrow> unmarshal \<Rightarrow> error + cloudsMap" where
  "LoadCloudsYAML found parse =
     (case found of
        Inl err \<Rightarrow> Inl err
      | Inr content \<Rightarrow>
          (case parse content of
             Inl err \<Rightarrow> Inl (Wrapf ''failed to unmarshal yaml: '' err)
           | Inr clouds \<Rightarrow> Inr clouds))"

definition LoadSecureCloudsYAML :: "error + string \<Rightarrow> unmarshal \<Rightarrow> error + cloudsMap" where
  "LoadSecureCloudsYAML found parse =
     (case found of
        Inl err \<Rightarrow> (if errors_Is_NotExist err then Inr None else Inl err)
      | Inr content \<Rightarrow>
          (case parse content of
             Inl err \<Rightarrow> Inl (Wrapf ''failed to unmarshal yaml: '' err)
           | Inr clouds \<Rightarrow> Inr clouds))"

definition LoadPublicCloudsYAML :: "error + string \<Rightarrow> unmarshal \<Rightarrow> error + cloudsMap" where
  "LoadPublicCloudsYAML found parse =
     (case found of
        Inl err \<Rightarrow> (if errors_Is_NotExist err then Inr None else Inl err)
      | Inr content \<Rightarrow>
          (case parse content of
             Inl err \<Rightarrow> Inl (Wrapf ''failed to unmarshal yaml: '' err)
           | Inr clouds \<Rightarrow> Inr clouds))"

text \<open>
  The interface \<^verbatim>\<open>YAMLOptsBuilder\<close>: what each of its three methods returns when
  called. \<^verbatim>\<open>YAMLOpts\<close> is the default implementation, which calls the three loaders.
\<close>

record YAMLOptsBuilder =
  yaml_LoadCloudsYAML :: "error + cloudsMap"
  yaml_LoadSecureCloudsYAML :: "error + cloudsMap"
  yaml_LoadPublicCloudsYAML :: "error + cloudsMap"

definition YAMLOpts ::
  "error + string \<Rightarrow> error + string \<Rightarrow> error + string \<Rightarrow> unmarshal \<Rightarrow> unmarshal \<Rightarrow> YAMLOptsBuilder"
where
  "YAMLOpts cloudsFile secureFile publicFile parse parsePublic =
     \<lparr>yaml_LoadCloudsYAML = LoadCloudsYAML cloudsFile parse,
      yaml_LoadSecureCloudsYAML = LoadSecureCloudsYAML secureFile parse,
      yaml_LoadPublicCloudsYAML = LoadPublicCloudsYAML publicFile parsePublic\<rparr>"

subsection \<open>GetCloudFromYAML\<close>

text \<open>A nil \<^verbatim>\<open>*ClientOpts\<close> is replaced by \<^verbatim>\<open>new(ClientOpts)\<close>.\<close>

definition optsOrNew :: "ClientOpts option \<Rightarrow> ClientOpts" where
  "optsOrNew p = (case p of None \<Rightarrow> ClientOpts_zero | Some opts \<Rightarrow> opts)"

text \<open>
  The environment prefix: \<^verbatim>\<open>"OS_"\<close> unless \<^verbatim>\<open>opts.EnvPrefix\<close> is set. In
  \<^verbatim>\<open>determineIdentityAPI\<close>, \<^verbatim>\<open>v2auth\<close> and \<^verbatim>\<open>v3auth\<close> the test is
  \<^verbatim>\<open>opts != nil && opts.EnvPrefix != ""\<close>.
\<close>

definition envPrefix :: "ClientOpts option \<Rightarrow> string" where
  "envPrefix p =
     (case p of
        None \<Rightarrow> ''OS_''
      | Some opts \<Rightarrow> (if opts_EnvPrefix opts \<noteq> [] then opts_EnvPrefix opts else ''OS_''))"

text \<open>
  Lines 204 to 219 (and, with the same text, 357 to 371 of \<^verbatim>\<open>AuthOptions\<close>): the
  cloud name is \<^verbatim>\<open>opts.Cloud\<close> when set, else the value of the \<^verbatim>\<open>CLOUD\<close>
  variable, else empty.
\<close>

definition determineCloudName :: "ClientOpts \<Rightarrow> environ \<Rightarrow> string" where
  "determineCloudName opts env =
     (if opts_Cloud opts \<noteq> [] then opts_Cloud opts
      else (let v = env (envPrefix (Some opts) @ ''CLOUD'') in if v \<noteq> [] then v else []))"

text \<open>Lines 221 to 236: the entry of the primary document, by name or as its only entry.\<close>

definition selectCloud :: "cloudsMap \<Rightarrow> string \<Rightarrow> error + Cloud option" where
  "selectCloud clouds cloudName =
     (case (if cloudName \<noteq> [] then
              (case lookup clouds cloudName of
                 None \<Rightarrow> Inl (Errorf (''cloud '' @ cloudName @ '' does not exist in clouds.yaml''))
               | Some v \<Rightarrow> Inr (Some v))
            else Inr None) of
        Inl err \<Rightarrow> Inl err
      | Inr cloud \<Rightarrow>
          Inr (if cloudName = [] \<and> len_map clouds = 1 then range_last clouds else cloud))"

text \<open>
  Lines 238 to 260: the profile of the public catalog, merged with the cloud by
  \<^verbatim>\<open>mergeClouds(cloud, publicCloud)\<close>.
\<close>

definition mergeProfile :: "YAMLOptsBuilder \<Rightarrow> Cloud option \<Rightarrow> error + Cloud option" where
  "mergeProfile yamlOpts cloud =
     (case cloud of
        None \<Rightarrow> Inr None
      | Some c \<Rightarrow>
          (let profileName = defaultIfEmpty (Profile c) (Cloud c) in
           if profileName \<noteq> [] then
             (case yaml_LoadPublicCloudsYAML yamlOpts of
                Inl err \<Rightarrow> Inl (Wrapf ''unable to load clouds-public.yaml: '' err)
              | Inr publicClouds \<Rightarrow>
                  (case lookup publicClouds profileName of
                     None \<Rightarrow>
                       Inl (Errorf (''cloud '' @ profileName @
                                    '' does not exist in clouds-public.yaml''))
                   | Some publicCloud \<Rightarrow>
                       (case mergeClouds (Some c) (Some publicCloud) of
                          Inl err \<Rightarrow>
                            Inl (Errorf (''Could not merge information from clouds.yaml and clouds-public.yaml for cloud '' @ profileName))
                        | Inr merged \<Rightarrow> Inr (Some merged))))
           else Inr (Some c)))"

text \<open>
  \<^verbatim>\<open>reflect.DeepEqual(cloud, secureCloud)\<close> at line 290 compares a \<^verbatim>\<open>*Cloud\<close> with a
  \<^verbatim>\<open>Cloud\<close>: values of distinct types are never deeply equal. The other test of that
  line, \<^verbatim>\<open>reflect.DeepEqual((Cloud{}), secureCloud)\<close>, compares two \<^verbatim>\<open>Cloud\<close> values and
  is equality.
\<close>

definition DeepEqual_ptr_value :: "Cloud option \<Rightarrow> Cloud \<Rightarrow> bool" where
  "DeepEqual_ptr_value cloud secureCloud = False"

text \<open>Lines 269 to 296, entered when the secure map is not nil.\<close>

definition mergeSecure :: "cloudsMap \<Rightarrow> string \<Rightarrow> Cloud option \<Rightarrow> error + Cloud option" where
  "mergeSecure secureClouds cloudName cloud0 =
     (if secureClouds \<noteq> None then
        (let cloud = (if cloud0 = None \<and> cloudName = [] \<and> len_map secureClouds = 1
                      then range_last secureClouds else cloud0);
             found = lookup secureClouds cloudName;
             secureCloud = (case found of None \<Rightarrow> Cloud_zero | Some v \<Rightarrow> v)
         in if found = None \<and> cloud = None then
              Inl (Errorf (''Could not find cloud '' @ cloudName))
            else if Cloud_zero \<noteq> secureCloud \<and> \<not> DeepEqual_ptr_value cloud secureCloud then
              (case mergeClouds (Some secureCloud) cloud of
                 Inl err \<Rightarrow>
                   Inl (Errorf ''unable to merge information from clouds.yaml and secure.yaml'')
               | Inr merged \<Rightarrow> Inr (Some merged))
            else Inr cloud)
      else Inr cloud0)"

text \<open>
  Lines 310 to 318: the values of the first region whose name is \<^verbatim>\<open>opts.RegionName\<close>
  are merged with the cloud by \<^verbatim>\<open>mergeClouds(v.Values, cloud)\<close>. The error of this call
  is not tested before \<^verbatim>\<open>cloud.Interface\<close> is read.
\<close>

definition regionOverride :: "ClientOpts \<Rightarrow> Cloud \<Rightarrow> error + Cloud" where
  "regionOverride opts cloud =
     (if opts_RegionName opts \<noteq> [] then
        (case List.find (\<lambda>v. opts_RegionName opts = Name v)
                (case Regions cloud of None \<Rightarrow> [] | Some rs \<Rightarrow> rs) of
           None \<Rightarrow> Inr cloud
         | Some v \<Rightarrow>
             (case mergeClouds (Some (Values v)) (Some cloud) of
                Inl err \<Rightarrow> Inl NilPointerPanic
              | Inr merged \<Rightarrow> Inr merged))
      else Inr cloud)"

text \<open>Lines 324 to 333: \<^verbatim>\<open>EndpointType\<close> is the canonical field, \<^verbatim>\<open>Interface\<close> is cleared.\<close>

definition normalizeEndpointType :: "Cloud \<Rightarrow> Cloud" where
  "normalizeEndpointType cloud =
     set_Interface []
       (if Interface cloud \<noteq> [] \<and> EndpointType cloud = []
        then set_EndpointType (Interface cloud) cloud else cloud)"

text \<open>
  The state of \<^verbatim>\<open>GetCloudFromYAML\<close> after the secure step (line 296): the cloud, nil
  when none was found.
\<close>

definition resolveCloud ::
  "ClientOpts \<Rightarrow> environ \<Rightarrow> YAMLOptsBuilder \<Rightarrow> error + Cloud option"
where
  "resolveCloud opts env yamlOpts =
     (case yaml_LoadCloudsYAML yamlOpts of
        Inl err \<Rightarrow> Inl (Wrapf ''unable to load clouds.yaml: '' err)
      | Inr clouds \<Rightarrow>
          (let cloudName = determineCloudName opts env in
           case selectCloud clouds cloudName of
             Inl err \<Rightarrow> Inl err
           | Inr cloud \<Rightarrow>
               (case mergeProfile yamlOpts cloud of
                  Inl err \<Rightarrow> Inl err
                | Inr cloud' \<Rightarrow>
                    (case yaml_LoadSecureCloudsYAML yamlOpts of
                       Inl err \<Rightarrow> Inl (Wrapf ''unable to load secure.yaml: '' err)
                     | Inr secureClouds \<Rightarrow> mergeSecure secureClouds cloudName cloud'))))"

text \<open>Lines 298 to 318: the last nil test, the default of \<^verbatim>\<open>Verify\<close>, the region.\<close>

definition verifyAndRegion :: "ClientOpts \<Rightarrow> string \<Rightarrow> Cloud option \<Rightarrow> error + Cloud" where
  "verifyAndRegion opts cloudName cloud =
     (case cloud of
        None \<Rightarrow> Inl (Errorf (''Could not find cloud '' @ cloudName))
      | Some c \<Rightarrow>
          regionOverride opts (if Verify c = None then set_Verify (Some True) c else c))"

text \<open>The state of \<^verbatim>\<open>GetCloudFromYAML\<close> before the normalisation of line 329.\<close>

definition cloudBeforeNormalize ::
  "ClientOpts option \<Rightarrow> environ \<Rightarrow> YAMLOptsBuilder \<Rightarrow> error + Cloud"
where
  "cloudBeforeNormalize p env yamlOpts =
     (let opts = optsOrNew p in
      case resolveCloud opts env yamlOpts of
        Inl err \<Rightarrow> Inl err
      | Inr cloud \<Rightarrow> verifyAndRegion opts (determineCloudName opts env) cloud)"

definition GetCloudFromYAML ::
  "ClientOpts option \<Rightarrow> environ \<Rightarrow> YAMLOptsBuilder \<Rightarrow> error + Cloud"
where
  "GetCloudFromYAML p env yamlOpts =
     (case cloudBeforeNormalize p env yamlOpts of
        Inl err \<Rightarrow> Inl err
      | Inr cloud \<Rightarrow> Inr (normalizeEndpointType cloud))"

text \<open>
  The rest of \<^verbatim>\<open>GetCloudFromYAML\<close> from an intermediate state, for stating what the
  call returns in terms of that state: \<open>afterProfile\<close> is lines 262 to 335 run on the cloud
  left by the profile step, \<open>afterSelect\<close> is lines 238 to 335 run on the cloud selected
  from the primary document, and \<open>defaultVerify\<close> is the assignment of lines 305 to 308.
\<close>

definition defaultVerify :: "Cloud \<Rightarrow> Cloud" where
  "defaultVerify cloud = (if Verify cloud = None then set_Verify (Some True) cloud else cloud)"

definition afterProfile ::
  "ClientOpts \<Rightarrow> string \<Rightarrow> YAMLOptsBuilder \<Rightarrow> Cloud option \<Rightarrow> error + Cloud"
where
  "afterProfile opts cloudName yamlOpts cloud =
     (case yaml_LoadSecureCloudsYAML yamlOpts of
        Inl err \<Rightarrow> Inl (Wrapf ''unable to load secure.yaml: '' err)
      | Inr secureClouds \<Rightarrow>
          (case mergeSecure secureClouds cloudName cloud of
             Inl err \<Rightarrow> Inl err
           | Inr cloud' \<Rightarrow>
               (case verifyAndRegion opts cloudName cloud' of
                  Inl err \<Rightarrow> Inl err
                | Inr c \<Rightarrow> Inr (normalizeEndpointType c))))"

definition afterSelect ::
  "ClientOpts \<Rightarrow> string \<Rightarrow> YAMLOptsBuilder \<Rightarrow> Cloud option \<Rightarrow> error + Cloud"
where
  "afterSelect opts cloudName yamlOpts cloud =
     (case mergeProfile yamlOpts cloud of
        Inl err \<Rightarrow> Inl err
      | Inr cloud' \<Rightarrow> afterProfile opts cloudName yamlOpts cloud')"

subsection \<open>AuthOptions\<close>

text \<open>
  \<^verbatim>\<open>gophercloud.AuthScope\<close> and \<^verbatim>\<open>gophercloud.AuthOptions\<close> belong to the SDK; the
  records carry the fields that \<^verbatim>\<open>v2auth\<close> and \<^verbatim>\<open>v3auth\<close> assign. \<^verbatim>\<open>Scope\<close> is a
  pointer: \<^verbatim>\<open>v2auth\<close> leaves it nil, \<^verbatim>\<open>v3auth\<close> always sets it.
\<close>

record gophercloud_AuthScope =
  scope_ProjectID :: string
  scope_ProjectName :: string
  scope_DomainID :: string
  scope_DomainName :: string
  scope_System :: bool

record gophercloud_AuthOptions =
  ao_IdentityEndpoint :: string
  ao_Username :: string
  ao_UserID :: string
  ao_Password :: string
  ao_DomainID :: string
  ao_DomainName :: string
  ao_TenantID :: string
  ao_TenantName :: string
  ao_AllowReauth :: bool
  ao_TokenID :: string
  ao_Scope :: "gophercloud_AuthScope option"
  ao_ApplicationCredentialID :: string
  ao_ApplicationCredentialName :: string
  ao_ApplicationCredentialSecret :: string

definition AuthScope_zero :: gophercloud_AuthScope where
  "AuthScope_zero = \<lparr>scope_ProjectID = [], scope_ProjectName = [], scope_DomainID = [],
     scope_DomainName = [], scope_System = False\<rparr>"

abbreviation AuthV2Password :: string where "AuthV2Password \<equiv> ''v2password''"
abbreviation AuthV2Token :: string where "AuthV2Token \<equiv> ''v2token''"
abbreviation AuthV3Password :: string where "AuthV3Password \<equiv> ''v3password''"
abbreviation AuthV3Token :: string where "AuthV3Token \<equiv> ''v3token''"
abbreviation AuthV3ApplicationCredential :: string where
  "AuthV3ApplicationCredential \<equiv> ''v3applicationcredential''"

text \<open>\<^verbatim>\<open>strings.Contains(s, substr)\<close>: \<open>substr\<close> occurs in \<open>s\<close> at some position.\<close>

fun strings_Contains :: "string \<Rightarrow> string \<Rightarrow> bool" where
  "strings_Contains [] substr = (substr = [])"
| "strings_Contains (c # s) substr =
     (take (length substr) (c # s) = substr \<or> strings_Contains s substr)"

definition determineIdentityAPI :: "Cloud \<Rightarrow> ClientOpts option \<Rightarrow> environ \<Rightarrow> string" where
  "determineIdentityAPI cloud opts env =
     (let fromField = (if IdentityAPIVersion cloud \<noteq> [] then IdentityAPIVersion cloud else []);
          v = env (envPrefix opts @ ''IDENTITY_API_VERSION'');
          fromEnv = (if v \<noteq> [] then v else fromField);
          fromURL =
            (if fromEnv = [] then
               (case AuthInfo cloud of
                  None \<Rightarrow> fromEnv
                | Some authInfo \<Rightarrow>
                    (let v2 = (if strings_Contains (AuthURL authInfo) ''v2.0''
                               then ''2.0'' else fromEnv)
                     in if strings_Contains (AuthURL authInfo) ''v3'' then ''3'' else v2))
             else fromEnv);
          fromAuthType =
            (if fromURL = [] then
               (if AuthType cloud = AuthV2Password then ''2.0''
                else if AuthType cloud = AuthV2Token then ''2.0''
                else if AuthType cloud = AuthV3Password then ''3''
                else if AuthType cloud = AuthV3Token then ''3''
                else if AuthType cloud = AuthV3ApplicationCredential then ''3''
                else fromURL)
             else fromURL)
      in if fromAuthType = [] then ''3'' else fromAuthType)"

text \<open>
  The pattern of every environment override in \<^verbatim>\<open>v2auth\<close> and \<^verbatim>\<open>v3auth\<close>:
  \<^verbatim>\<open>if x == "" { if v := env.Getenv(prefix + name); v != "" { x = v } ... }\<close>, with one
  or two variable names read in this order, a later non-empty one replacing an earlier one.
\<close>

definition envFallback :: "environ \<Rightarrow> string \<Rightarrow> string list \<Rightarrow> string \<Rightarrow> string" where
  "envFallback env prefix names cur =
     (if cur = [] then
        foldl (\<lambda>x name. let v = env (prefix @ name) in if v \<noteq> [] then v else x) cur names
      else cur)"

text \<open>Lines 467 to 513 of \<^verbatim>\<open>v2auth\<close>; each override touches one field only.\<close>

definition v2env :: "environ \<Rightarrow> string \<Rightarrow> AuthInfo \<Rightarrow> AuthInfo" where
  "v2env env prefix a =
     a\<lparr>AuthURL := envFallback env prefix [''AUTH_URL''] (AuthURL a),
       Token := envFallback env prefix [''TOKEN'', ''AUTH_TOKEN''] (Token a),
       Username := envFallback env prefix [''USERNAME''] (Username a),
       Password := envFallback env prefix [''PASSWORD''] (Password a),
       ProjectID := envFallback env prefix [''TENANT_ID'', ''PROJECT_ID''] (ProjectID a),
       ProjectName := envFallback env prefix [''TENANT_NAME'', ''PROJECT_NAME''] (ProjectName a)\<rparr>"

definition v2auth :: "Cloud \<Rightarrow> ClientOpts option \<Rightarrow> environ \<Rightarrow> error + gophercloud_AuthOptions" where
  "v2auth cloud opts env =
     (case AuthInfo cloud of
        None \<Rightarrow> Inl NilPointerPanic
      | Some authInfo \<Rightarrow>
          (let a = v2env env (envPrefix opts) authInfo in
           Inr \<lparr>ao_IdentityEndpoint = AuthURL a,
                ao_Username = Username a,
                ao_UserID = [],
                ao_Password = Password a,
                ao_DomainID = [],
                ao_DomainName = [],
                ao_TenantID = ProjectID a,
                ao_TenantName = ProjectName a,
                ao_AllowReauth = AllowReauth a,
                ao_TokenID = Token a,
                ao_Scope = None,
                ao_ApplicationCredentialID = [],
                ao_ApplicationCredentialName = [],
                ao_ApplicationCredentialSecret = []\<rparr>))"

text \<open>Lines 536 to 654 of \<^verbatim>\<open>v3auth\<close>.\<close>

definition v3env :: "environ \<Rightarrow> string \<Rightarrow> AuthInfo \<Rightarrow> AuthInfo" where
  "v3env env prefix a =
     a\<lparr>AuthURL := envFallback env prefix [''AUTH_URL''] (AuthURL a),
       Token := envFallback env prefix [''TOKEN'', ''AUTH_TOKEN''] (Token a),
       Username := envFallback env prefix [''USERNAME''] (Username a),
       UserID := envFallback env prefix [''USER_ID''] (UserID a),
       Password := envFallback env prefix [''PASSWORD''] (Password a),
       ProjectID := envFallback env prefix [''TENANT_ID'', ''PROJECT_ID''] (ProjectID a),
       ProjectName := envFallback env prefix [''TENANT_NAME'', ''PROJECT_NAME''] (ProjectName a),
       DomainID := envFallback env prefix [''DOMAIN_ID''] (DomainID a),
       DomainName := envFallback env prefix [''DOMAIN_NAME''] (DomainName a),
       DefaultDomain := envFallback env prefix [''DEFAULT_DOMAIN''] (DefaultDomain a),
       ProjectDomainID := envFallback env prefix [''PROJECT_DOMAIN_ID''] (ProjectDomainID a),
       ProjectDomainName :=
         envFallback env prefix [''PROJECT_DOMAIN_NAME''] (ProjectDomainName a),
       UserDomainID := envFallback env prefix [''USER_DOMAIN_ID''] (UserDomainID a),
       UserDomainName := envFallback env prefix [''USER_DOMAIN_NAME''] (UserDomainName a),
       ApplicationCredentialID :=
         envFallback env prefix [''APPLICATION_CREDENTIAL_ID''] (ApplicationCredentialID a),
       ApplicationCredentialName :=
         envFallback env prefix [''APPLICATION_CREDENTIAL_NAME''] (ApplicationCredentialName a),
       ApplicationCredentialSecret :=
         envFallback env prefix [''APPLICATION_CREDENTIAL_SECRET'']
           (ApplicationCredentialSecret a),
       SystemScope := envFallback env prefix [''SYSTEM_SCOPE''] (SystemScope a)\<rparr>"

definition isProjectScoped :: "AuthInfo \<Rightarrow> bool" where
  "isProjectScoped authInfo =
     (if ProjectID authInfo = [] \<and> ProjectName authInfo = [] then False else True)"

definition isApplicationCredential :: "AuthInfo \<Rightarrow> bool" where
  "isApplicationCredential authInfo =
     (if ApplicationCredentialID authInfo = [] \<and> ApplicationCredentialName authInfo = []
         \<and> ApplicationCredentialSecret authInfo = []
      then False else True)"

text \<open>
  \<^verbatim>\<open>setDomainIfNeeded\<close> takes and returns the \<^verbatim>\<open>*Cloud\<close> and touches only the fields of
  \<^verbatim>\<open>cloud.AuthInfo\<close>; the model works on the \<^verbatim>\<open>AuthInfo\<close>.
\<close>

definition setDomainIfNeeded :: "AuthInfo \<Rightarrow> AuthInfo" where
  "setDomainIfNeeded a0 =
     (let a1 =
            (if DomainID a0 \<noteq> [] then
               (let b = (if UserDomainID a0 = [] then a0\<lparr>UserDomainID := DomainID a0\<rparr> else a0);
                    c = (if ProjectDomainID b = [] then b\<lparr>ProjectDomainID := DomainID b\<rparr> else b)
                in c\<lparr>DomainID := []\<rparr>)
             else a0);
          a2 =
            (if DomainName a1 \<noteq> [] then
               (let b = (if UserDomainName a1 = []
                         then a1\<lparr>UserDomainName := DomainName a1\<rparr> else a1);
                    c = (if ProjectDomainName b = []
                         then b\<lparr>ProjectDomainName := DomainName b\<rparr> else b)
                in c\<lparr>DomainName := []\<rparr>)
             else a1)
      in if DefaultDomain a2 \<noteq> [] then
           (let b = (if UserDomainName a2 = [] \<and> UserDomainID a2 = []
                     then a2\<lparr>UserDomainID := DefaultDomain a2\<rparr> else a2)
            in if ProjectDomainName b = [] \<and> ProjectDomainID b = []
               then b\<lparr>ProjectDomainID := DefaultDomain b\<rparr> else b)
         else a2)"

text \<open>Lines 656 to 688: the scope, and the \<^verbatim>\<open>AuthInfo\<close> after domain defaulting.\<close>

definition v3scope :: "AuthInfo \<Rightarrow> AuthInfo \<times> gophercloud_AuthScope" where
  "v3scope a =
     (if isApplicationCredential a then (setDomainIfNeeded a, AuthScope_zero)
      else if \<not> isProjectScoped a then
        (let s1 = (if DomainID a \<noteq> [] then AuthScope_zero\<lparr>scope_DomainID := DomainID a\<rparr>
                   else if DomainName a \<noteq> [] then AuthScope_zero\<lparr>scope_DomainName := DomainName a\<rparr>
                   else AuthScope_zero)
         in (a, if SystemScope a \<noteq> [] then s1\<lparr>scope_System := True\<rparr> else s1))
      else
        (let b = setDomainIfNeeded a
         in (b, if ProjectID b \<noteq> [] then AuthScope_zero\<lparr>scope_ProjectID := ProjectID b\<rparr>
                else AuthScope_zero\<lparr>scope_ProjectName := ProjectName b,
                                    scope_DomainID := ProjectDomainID b,
                                    scope_DomainName := ProjectDomainName b\<rparr>)))"

text \<open>Lines 707 to 718: token authentication unsets the user and domain options.\<close>

definition clearForToken :: "Cloud \<Rightarrow> gophercloud_AuthOptions \<Rightarrow> gophercloud_AuthOptions" where
  "clearForToken cloud ao =
     (if strings_Contains (AuthType cloud) ''token'' \<or> ao_TokenID ao \<noteq> [] then
        ao\<lparr>ao_Username := [], ao_Password := [], ao_UserID := [], ao_DomainID := [],
           ao_DomainName := []\<rparr>
      else ao)"

definition v3auth :: "Cloud \<Rightarrow> ClientOpts option \<Rightarrow> environ \<Rightarrow> error + gophercloud_AuthOptions" where
  "v3auth cloud opts env =
     (case AuthInfo cloud of
        None \<Rightarrow> Inl NilPointerPanic
      | Some authInfo \<Rightarrow>
          (let (a, scope) = v3scope (v3env env (envPrefix opts) authInfo);
               ao = clearForToken cloud
                      \<lparr>ao_IdentityEndpoint = AuthURL a,
                       ao_Username = Username a,
                       ao_UserID = UserID a,
                       ao_Password = Password a,
                       ao_DomainID = UserDomainID a,
                       ao_DomainName = UserDomainName a,
                       ao_TenantID = ProjectID a,
                       ao_TenantName = ProjectName a,
                       ao_AllowReauth = AllowReauth a,
                       ao_TokenID = Token a,
                       ao_Scope = Some scope,
                       ao_ApplicationCredentialID = ApplicationCredentialID a,
                       ao_ApplicationCredentialName = ApplicationCredentialName a,
                       ao_ApplicationCredentialSecret = ApplicationCredentialSecret a\<rparr>
           in if ao_IdentityEndpoint ao = [] then Inl (ErrMissingInput ''auth_url'')
              else Inr ao))"

text \<open>
  Lines 383 to 395 of \<^verbatim>\<open>AuthOptions\<close>: a cloud without \<^verbatim>\<open>AuthInfo\<close> takes the one of
  \<^verbatim>\<open>opts\<close>, or an empty one.
\<close>

definition ensureAuthInfo :: "ClientOpts \<Rightarrow> Cloud \<Rightarrow> Cloud" where
  "ensureAuthInfo opts cloud =
     (if AuthInfo cloud = None then
        (case opts_AuthInfo opts of
           Some authInfo \<Rightarrow> set_AuthInfo (Some authInfo) cloud
         | None \<Rightarrow> set_AuthInfo (Some AuthInfo_zero) cloud)
      else cloud)"

text \<open>
  Lines 347 to 395: the cloud that \<^verbatim>\<open>AuthOptions\<close> authenticates with, read from the
  documents when a cloud name was determined and empty otherwise.
\<close>

definition authCloud :: "ClientOpts option \<Rightarrow> environ \<Rightarrow> YAMLOptsBuilder \<Rightarrow> error + Cloud" where
  "authCloud p env yamlOpts =
     (let opts = optsOrNew p;
          cloudName = determineCloudName opts env
      in case (if cloudName \<noteq> [] then GetCloudFromYAML (Some opts) env yamlOpts
               else Inr Cloud_zero) of
           Inl err \<Rightarrow> Inl err
         | Inr cloud \<Rightarrow> Inr (ensureAuthInfo opts cloud))"

definition AuthOptions ::
  "ClientOpts option \<Rightarrow> environ \<Rightarrow> YAMLOptsBuilder \<Rightarrow> error + gophercloud_AuthOptions"
where
  "AuthOptions p env yamlOpts =
     (case authCloud p env yamlOpts of
        Inl err \<Rightarrow> Inl err
      | Inr cloud \<Rightarrow>
          (let opts = Some (optsOrNew p);
               identityAPI = determineIdentityAPI cloud opts env
           in if identityAPI = ''2.0'' \<or> identityAPI = ''2'' then v2auth cloud opts env
              else if identityAPI = ''3'' then v3auth cloud opts env
              else Inl (Errorf ''Unable to build AuthOptions'')))"

subsection \<open>Merge precedence, as a predicate\<close>




subsection \<open>Example documents and inputs\<close>

definition yaml_documents :: "cloudsMap \<Rightarrow> cloudsMap \<Rightarrow> cloudsMap \<Rightarrow> YAMLOptsBuilder" where
  "yaml_documents clouds secure public =
     \<lparr>yaml_LoadCloudsYAML = Inr clouds, yaml_LoadSecureCloudsYAML = Inr secure,
      yaml_LoadPublicCloudsYAML = Inr public\<rparr>"

definition cloud_with_version :: "string \<Rightarrow> Cloud" where
  "cloud_with_version v = MkCloud [] [] None [] [] None [] [] v [] None [] [] []"

definition authinfo_v2_token :: AuthInfo where
  "authinfo_v2_token = AuthInfo_zero\<lparr>AuthURL := ''http://keystone/v2.0'', Token := ''tok'',
     Username := ''alice'', Password := ''pw''\<rparr>"

definition authinfo_v3_token :: AuthInfo where
  "authinfo_v3_token = AuthInfo_zero\<lparr>AuthURL := ''http://keystone/v3'', Token := ''tok'',
     Username := ''alice'', Password := ''pw''\<rparr>"

definition opts_with_auth :: "AuthInfo \<Rightarrow> ClientOpts option" where
  "opts_with_auth a = Some (ClientOpts_zero\<lparr>opts_AuthInfo := Some a\<rparr>)"

definition opts_for_cloud :: "string \<Rightarrow> ClientOpts option" where
  "opts_for_cloud name = Some (ClientOpts_zero\<lparr>opts_Cloud := name\<rparr>)"

definition primary_doc :: cloudsMap where
  "primary_doc = Some
     [(''mycloud'',
       MkCloud [] ''vendorX'' (Some (AuthInfo_zero\<lparr>Username := ''jdoe''\<rparr>))
         [] [] None [] ''internal'' [] [] None [] [] []),
      (''other'', cloud_with_version ''3'')]"

definition public_doc :: cloudsMap where
  "public_doc = Some
     [(''vendorX'',
       MkCloud [] [] (Some (AuthInfo_zero\<lparr>AuthURL := ''https://vendor.example/v3''\<rparr>))
         [] [] (Some [MkRegion ''RegionOne'' Cloud_zero]) [] [] ''3'' [] None [] [] [])]"

definition secure_doc :: cloudsMap where
  "secure_doc = Some
     [(''mycloud'',
       MkCloud [] [] (Some (AuthInfo_zero\<lparr>Password := ''s3cret''\<rparr>))
         [] [] None [] [] [] [] None [] [] [])]"

definition mycloud_primary :: Cloud where
  "mycloud_primary =
     MkCloud [] ''vendorX'' (Some (AuthInfo_zero\<lparr>Username := ''jdoe''\<rparr>))
       [] [] None [] ''internal'' [] [] None [] [] []"

definition vendorX :: Cloud where
  "vendorX =
     MkCloud [] [] (Some (AuthInfo_zero\<lparr>AuthURL := ''https://vendor.example/v3''\<rparr>))
       [] [] (Some [MkRegion ''RegionOne'' Cloud_zero]) [] [] ''3'' [] None [] [] []"

definition mycloud_with_profile :: Cloud where
  "mycloud_with_profile =
     MkCloud [] ''vendorX''
       (Some (AuthInfo_zero\<lparr>AuthURL := ''https://vendor.example/v3'', Username := ''jdoe''\<rparr>))
       [] [] (Some [MkRegion ''RegionOne'' Cloud_zero]) [] ''internal'' ''3'' [] None [] [] []"

definition mycloud_secure :: Cloud where
  "mycloud_secure =
     MkCloud [] [] (Some (AuthInfo_zero\<lparr>Password := ''s3cret''\<rparr>))
       [] [] None [] [] [] [] None [] [] []"

definition mycloud_merged :: Cloud where
  "mycloud_merged =
     MkCloud [] ''vendorX''
       (Some (AuthInfo_zero\<lparr>AuthURL := ''https://vendor.example/v3'', Username := ''jdoe'',
                Password := ''s3cret''\<rparr>))
       [] [] (Some [MkRegion ''RegionOne'' Cloud_zero]) [] ''internal'' ''3'' [] None [] [] []"

definition mycloud_result :: Cloud where
  "mycloud_result =
     MkCloud [] ''vendorX''
       (Some (AuthInfo_zero\<lparr>AuthURL := ''https://vendor.example/v3'', Username := ''jdoe'',
                Password := ''s3cret''\<rparr>))
       [] [] (Some [MkRegion ''RegionOne'' Cloud_zero]) ''internal'' [] ''3'' [] (Some True) [] [] []"

definition parse_nothing :: unmarshal where
  "parse_nothing content = Inr None"

text \<open>
  Documents in which two layers set the same field: the primary entry sets a password and
  the identity API version "2", the profile sets the version "3", and the secure entry sets
  another password and an \<^verbatim>\<open>interface\<close>.
\<close>

definition conflict_primary :: Cloud where
  "conflict_primary =
     MkCloud [] ''vendorX''
       (Some (AuthInfo_zero\<lparr>Username := ''jdoe'', Password := ''changeme''\<rparr>))
       [] [] None [] [] ''2'' [] None [] [] []"

definition conflict_secure :: Cloud where
  "conflict_secure =
     MkCloud [] [] (Some (AuthInfo_zero\<lparr>Password := ''s3cret''\<rparr>))
       [] [] None [] ''public'' [] [] None [] [] []"

definition conflict_profile_result :: Cloud where
  "conflict_profile_result =
     MkCloud [] ''vendorX''
       (Some (AuthInfo_zero\<lparr>AuthURL := ''https://vendor.example/v3'', Username := ''jdoe'',
                Password := ''changeme''\<rparr>))
       [] [] (Some [MkRegion ''RegionOne'' Cloud_zero]) [] [] ''3'' [] (Some True) [] [] []"

definition conflict_secure_result :: Cloud where
  "conflict_secure_result =
     MkCloud [] ''vendorX''
       (Some (AuthInfo_zero\<lparr>AuthURL := ''https://vendor.example/v3'', Username := ''jdoe'',
                Password := ''changeme''\<rparr>))
       [] [] (Some [MkRegion ''RegionOne'' Cloud_zero]) ''public'' [] ''3'' [] (Some True) [] [] []"

definition authinfo_domain_name :: AuthInfo where
  "authinfo_domain_name = AuthInfo_zero\<lparr>AuthURL := ''http://keystone/v3'',
     ApplicationCredentialID := ''ac1'', ApplicationCredentialSecret := ''secret'',
     DomainName := ''Default''\<rparr>"

definition authinfo_no_credential :: AuthInfo where
  "authinfo_no_credential = AuthInfo_zero\<lparr>AuthURL := ''http://keystone/v3'',
     DomainID := ''default''\<rparr>"

definition env_appcred :: environ where
  "env_appcred = env_of [(''OS_APPLICATION_CREDENTIAL_ID'', ''ac1''),
     (''OS_APPLICATION_CREDENTIAL_SECRET'', ''secret'')]"

definition parse_primary :: unmarshal where
  "parse_primary content = Inr primary_doc"

section \<open>Properties\<close>

subsection \<open>Unfolding rules and helper lemmas\<close>

lemmas get_defs = GetCloudFromYAML_def cloudBeforeNormalize_def resolveCloud_def
  verifyAndRegion_def regionOverride_def normalizeEndpointType_def mergeSecure_def
  mergeProfile_def selectCloud_def determineCloudName_def envPrefix_def optsOrNew_def
  ClientOpts_zero_def Cloud_zero_def lookup_def entries_def len_map_def range_last_def
  env_of_def defaultIfEmpty_def mergeClouds_def mergeCloudFields_def mergeAuthInfoPtr_def
  mergeAuthInfo_def override_field_def deref_def DeepEqual_ptr_value_def

lemmas auth_defs = AuthOptions_def authCloud_def ensureAuthInfo_def determineIdentityAPI_def
  v2auth_def v2env_def v3auth_def v3env_def v3scope_def clearForToken_def envFallback_def
  isProjectScoped_def isApplicationCredential_def setDomainIfNeeded_def AuthInfo_zero_def
  AuthScope_zero_def

lemmas example_defs = yaml_documents_def cloud_with_version_def authinfo_v2_token_def
  authinfo_v3_token_def opts_with_auth_def opts_for_cloud_def
  primary_doc_def public_doc_def secure_doc_def mycloud_primary_def mycloud_with_profile_def
  mycloud_secure_def mycloud_merged_def mycloud_result_def parse_nothing_def parse_primary_def vendorX_def
  conflict_primary_def conflict_secure_def conflict_profile_result_def
  conflict_secure_result_def authinfo_domain_name_def authinfo_no_credential_def
  env_appcred_def

lemma AuthOptions_v3:
  assumes "authCloud p env y = Inr cloud"
      and "determineIdentityAPI cloud (Some (optsOrNew p)) env = ''3''"
  shows "AuthOptions p env y = v3auth cloud (Some (optsOrNew p)) env"
  using assms by (simp add: AuthOptions_def)

lemma AuthOptions_v2:
  assumes "authCloud p env y = Inr cloud"
      and "determineIdentityAPI cloud (Some (optsOrNew p)) env = ''2.0''
           \<or> determineIdentityAPI cloud (Some (optsOrNew p)) env = ''2''"
  shows "AuthOptions p env y = v2auth cloud (Some (optsOrNew p)) env"
  using assms by (auto simp add: AuthOptions_def)

lemma set_AuthInfo_sel [simp]:
  "AuthInfo (set_AuthInfo v c) = v"
  "Cloud (set_AuthInfo v c) = Cloud c"
  "Profile (set_AuthInfo v c) = Profile c"
  "AuthType (set_AuthInfo v c) = AuthType c"
  "RegionName (set_AuthInfo v c) = RegionName c"
  "Regions (set_AuthInfo v c) = Regions c"
  "EndpointType (set_AuthInfo v c) = EndpointType c"
  "Interface (set_AuthInfo v c) = Interface c"
  "IdentityAPIVersion (set_AuthInfo v c) = IdentityAPIVersion c"
  "VolumeAPIVersion (set_AuthInfo v c) = VolumeAPIVersion c"
  "Verify (set_AuthInfo v c) = Verify c"
  "CACertFile (set_AuthInfo v c) = CACertFile c"
  "ClientCertFile (set_AuthInfo v c) = ClientCertFile c"
  "ClientKeyFile (set_AuthInfo v c) = ClientKeyFile c"
  by (cases c; simp)+

lemma set_Verify_sel [simp]:
  "Verify (set_Verify v c) = v"
  "Cloud (set_Verify v c) = Cloud c"
  "Profile (set_Verify v c) = Profile c"
  "AuthInfo (set_Verify v c) = AuthInfo c"
  "AuthType (set_Verify v c) = AuthType c"
  "RegionName (set_Verify v c) = RegionName c"
  "Regions (set_Verify v c) = Regions c"
  "EndpointType (set_Verify v c) = EndpointType c"
  "Interface (set_Verify v c) = Interface c"
  "IdentityAPIVersion (set_Verify v c) = IdentityAPIVersion c"
  "VolumeAPIVersion (set_Verify v c) = VolumeAPIVersion c"
  "CACertFile (set_Verify v c) = CACertFile c"
  "ClientCertFile (set_Verify v c) = ClientCertFile c"
  "ClientKeyFile (set_Verify v c) = ClientKeyFile c"
  by (cases c; simp)+

lemma set_EndpointType_sel [simp]:
  "EndpointType (set_EndpointType v c) = v"
  "Cloud (set_EndpointType v c) = Cloud c"
  "Profile (set_EndpointType v c) = Profile c"
  "AuthInfo (set_EndpointType v c) = AuthInfo c"
  "AuthType (set_EndpointType v c) = AuthType c"
  "RegionName (set_EndpointType v c) = RegionName c"
  "Regions (set_EndpointType v c) = Regions c"
  "Interface (set_EndpointType v c) = Interface c"
  "IdentityAPIVersion (set_EndpointType v c) = IdentityAPIVersion c"
  "VolumeAPIVersion (set_EndpointType v c) = VolumeAPIVersion c"
  "Verify (set_EndpointType v c) = Verify c"
  "CACertFile (set_EndpointType v c) = CACertFile c"
  "ClientCertFile (set_EndpointType v c) = ClientCertFile c"
  "ClientKeyFile (set_EndpointType v c) = ClientKeyFile c"
  by (cases c; simp)+

lemma set_Interface_sel [simp]:
  "Interface (set_Interface v c) = v"
  "Cloud (set_Interface v c) = Cloud c"
  "Profile (set_Interface v c) = Profile c"
  "AuthInfo (set_Interface v c) = AuthInfo c"
  "AuthType (set_Interface v c) = AuthType c"
  "RegionName (set_Interface v c) = RegionName c"
  "Regions (set_Interface v c) = Regions c"
  "EndpointType (set_Interface v c) = EndpointType c"
  "IdentityAPIVersion (set_Interface v c) = IdentityAPIVersion c"
  "VolumeAPIVersion (set_Interface v c) = VolumeAPIVersion c"
  "Verify (set_Interface v c) = Verify c"
  "CACertFile (set_Interface v c) = CACertFile c"
  "ClientCertFile (set_Interface v c) = ClientCertFile c"
  "ClientKeyFile (set_Interface v c) = ClientKeyFile c"
  by (cases c; simp)+

lemma authCloud_has_AuthInfo:
  assumes "authCloud p env y = Inr cloud"
  shows "AuthInfo cloud \<noteq> None"
  using assms
  by (auto simp add: authCloud_def Let_def ensureAuthInfo_def split: sum.splits if_splits option.splits)

lemma setDomainIfNeeded_others:
  "AuthURL (setDomainIfNeeded a) = AuthURL a"
  "Token (setDomainIfNeeded a) = Token a"
  "Username (setDomainIfNeeded a) = Username a"
  "UserID (setDomainIfNeeded a) = UserID a"
  "Password (setDomainIfNeeded a) = Password a"
  "ProjectID (setDomainIfNeeded a) = ProjectID a"
  "ProjectName (setDomainIfNeeded a) = ProjectName a"
  "AllowReauth (setDomainIfNeeded a) = AllowReauth a"
  "ApplicationCredentialID (setDomainIfNeeded a) = ApplicationCredentialID a"
  "ApplicationCredentialName (setDomainIfNeeded a) = ApplicationCredentialName a"
  "ApplicationCredentialSecret (setDomainIfNeeded a) = ApplicationCredentialSecret a"
  by (simp_all add: setDomainIfNeeded_def Let_def)

lemma v3scope_Token: "Token (fst (v3scope a)) = Token a"
  by (simp add: v3scope_def Let_def setDomainIfNeeded_others)

lemma v3scope_AuthURL: "AuthURL (fst (v3scope a)) = AuthURL a"
  by (simp add: v3scope_def Let_def setDomainIfNeeded_others)

text \<open>
  On the v3 path the auth URL is required: \<^verbatim>\<open>v3auth\<close> fails with the missing-input
  error when the URL is empty after the environment fallback, and every result of
  \<^verbatim>\<open>v3auth\<close> has a non-empty \<^verbatim>\<open>IdentityEndpoint\<close>.
\<close>

lemma v3auth_requires_auth_url:
  assumes "AuthInfo cloud = Some ai"
  shows "(envFallback env (envPrefix opts) [''AUTH_URL''] (AuthURL ai) = [] \<longrightarrow>
            v3auth cloud opts env = Inl (ErrMissingInput ''auth_url''))
       \<and> (\<forall>ao. v3auth cloud opts env = Inr ao \<longrightarrow> ao_IdentityEndpoint ao \<noteq> [])"
proof -
  let ?a = "v3env env (envPrefix opts) ai"
  have url: "AuthURL (fst (v3scope ?a)) = envFallback env (envPrefix opts) [''AUTH_URL''] (AuthURL ai)"
    by (simp add: v3scope_AuthURL) (simp add: v3env_def)
  have keep: "ao_IdentityEndpoint (clearForToken cloud r) = ao_IdentityEndpoint r" for r
    by (simp add: clearForToken_def)
  from assms url show ?thesis
    by (auto simp add: v3auth_def Let_def split_beta keep split: if_splits)
qed

lemma v3auth_token_cleared:
  assumes "v3auth cloud opts env = Inr ao"
      and "AuthInfo cloud = Some ai"
      and "strings_Contains (AuthType cloud) ''token''
           \<or> envFallback env (envPrefix opts) [''TOKEN'', ''AUTH_TOKEN''] (Token ai) \<noteq> []"
  shows "ao_Username ao = [] \<and> ao_Password ao = [] \<and> ao_UserID ao = []
         \<and> ao_DomainID ao = [] \<and> ao_DomainName ao = []"
proof -
  let ?a = "v3env env (envPrefix opts) ai"
  have tok: "Token (fst (v3scope ?a)) = envFallback env (envPrefix opts) [''TOKEN'', ''AUTH_TOKEN''] (Token ai)"
    by (simp add: v3scope_Token) (simp add: v3env_def)
  from assms(1,2) tok assms(3) show ?thesis
    by (auto simp add: v3auth_def clearForToken_def Let_def split_beta split: if_splits)
qed


lemma v2auth_user_fields:
  assumes "v2auth cloud opts env = Inr ao" and "AuthInfo cloud = Some ai"
  shows "ao_UserID ao = [] \<and> ao_DomainID ao = [] \<and> ao_DomainName ao = []
         \<and> ao_Username ao = envFallback env (envPrefix opts) [''USERNAME''] (Username ai)
         \<and> ao_Password ao = envFallback env (envPrefix opts) [''PASSWORD''] (Password ai)"
  using assms by (auto simp add: v2auth_def v2env_def Let_def)


text \<open>
  Token authentication on the two paths of \<^verbatim>\<open>AuthOptions\<close>: on the v3 path the user
  and domain options of the result are cleared; on the v2 path \<^verbatim>\<open>Username\<close> and
  \<^verbatim>\<open>Password\<close> are the values after the environment fallback.
\<close>

lemma AuthOptions_token_cleared_on_v3:
  assumes "authCloud p env y = Inr cloud"
      and "AuthInfo cloud = Some ai"
      and "strings_Contains (AuthType cloud) ''token''
           \<or> envFallback env (envPrefix (Some (optsOrNew p))) [''TOKEN'', ''AUTH_TOKEN''] (Token ai) \<noteq> []"
      and "AuthOptions p env y = Inr ao"
  shows "(determineIdentityAPI cloud (Some (optsOrNew p)) env = ''3'' \<longrightarrow>
            ao_Username ao = [] \<and> ao_Password ao = [] \<and> ao_UserID ao = []
            \<and> ao_DomainID ao = [] \<and> ao_DomainName ao = [])
       \<and> (determineIdentityAPI cloud (Some (optsOrNew p)) env \<noteq> ''3'' \<longrightarrow>
            ao_UserID ao = [] \<and> ao_DomainID ao = [] \<and> ao_DomainName ao = []
            \<and> ao_Username ao =
                envFallback env (envPrefix (Some (optsOrNew p))) [''USERNAME''] (Username ai)
            \<and> ao_Password ao =
                envFallback env (envPrefix (Some (optsOrNew p))) [''PASSWORD''] (Password ai))"
proof (intro conjI impI)
  assume v3: "determineIdentityAPI cloud (Some (optsOrNew p)) env = ''3''"
  with assms(1,4) have "v3auth cloud (Some (optsOrNew p)) env = Inr ao"
    by (simp add: AuthOptions_v3)
  from v3auth_token_cleared [OF this assms(2,3)]
  show "ao_Username ao = []" "ao_Password ao = []" "ao_UserID ao = []"
       "ao_DomainID ao = []" "ao_DomainName ao = []"
    by simp_all
next
  assume nv3: "determineIdentityAPI cloud (Some (optsOrNew p)) env \<noteq> ''3''"
  with assms(1,4) have "v2auth cloud (Some (optsOrNew p)) env = Inr ao"
    by (simp add: AuthOptions_def Let_def split: if_splits)
  from v2auth_user_fields [OF this assms(2)]
  show "ao_UserID ao = []" "ao_DomainID ao = []" "ao_DomainName ao = []"
       "ao_Username ao = envFallback env (envPrefix (Some (optsOrNew p))) [''USERNAME''] (Username ai)"
       "ao_Password ao = envFallback env (envPrefix (Some (optsOrNew p))) [''PASSWORD''] (Password ai)"
    by simp_all
qed

lemma setDomainIfNeeded_UserDomainID:
  "UserDomainID (setDomainIfNeeded a) =
     (if UserDomainID a \<noteq> [] then UserDomainID a
      else if DomainID a \<noteq> [] then DomainID a
      else if DefaultDomain a \<noteq> [] \<and> UserDomainName a = [] \<and> DomainName a = []
      then DefaultDomain a else [])"
  by (simp add: setDomainIfNeeded_def Let_def)

lemma setDomainIfNeeded_ProjectDomainID:
  "ProjectDomainID (setDomainIfNeeded a) =
     (if ProjectDomainID a \<noteq> [] then ProjectDomainID a
      else if DomainID a \<noteq> [] then DomainID a
      else if DefaultDomain a \<noteq> [] \<and> ProjectDomainName a = [] \<and> DomainName a = []
      then DefaultDomain a else [])"
  by (simp add: setDomainIfNeeded_def Let_def)

lemma setDomainIfNeeded_UserDomainName:
  "UserDomainName (setDomainIfNeeded a) =
     (if UserDomainName a \<noteq> [] then UserDomainName a else DomainName a)"
  by (simp add: setDomainIfNeeded_def Let_def)

lemma setDomainIfNeeded_ProjectDomainName:
  "ProjectDomainName (setDomainIfNeeded a) =
     (if ProjectDomainName a \<noteq> [] then ProjectDomainName a else DomainName a)"
  by (simp add: setDomainIfNeeded_def Let_def)

lemma envFallback_keeps: "cur \<noteq> [] \<Longrightarrow> envFallback env pre names cur = cur"
  by (simp add: envFallback_def)

lemma isApplicationCredential_v3env:
  "isApplicationCredential a \<Longrightarrow> isApplicationCredential (v3env env pre a)"
  by (auto simp add: isApplicationCredential_def v3env_def envFallback_def split: if_splits)


lemma override_field_same: "override_field z a a = a"
  by (simp add: override_field_def)



lemma mergeAuthInfo_idem: "mergeAuthInfo a a = a"
  by (simp add: mergeAuthInfo_def override_field_same)

lemma mergeCloudFields_idem: "mergeCloudFields c c = c"
  by (cases c) (simp add: mergeCloudFields_def mergeAuthInfoPtr_def mergeAuthInfo_idem
      override_field_same split: option.splits)

lemma regionOverride_total: "\<exists>c'. regionOverride opts c = Inr c'"
  by (simp add: regionOverride_def mergeClouds_def split: option.splits)

lemma len_map_one:
  assumes "len_map m = 1"
  shows "\<exists>k v. range_last m = Some v \<and> lookup m k = Some v
               \<and> (\<forall>k'. lookup m k' \<noteq> None \<longrightarrow> k' = k)"
proof -
  from assms obtain x where x: "remdups (map fst (entries m)) = [x]"
    by (auto simp add: len_map_def length_Suc_conv)
  then have keys: "set (map fst (entries m)) = {x}"
    by (metis set_remdups list.simps(15) empty_set)
  then obtain k v rest where kv: "entries m = (k, v) # rest"
    by (cases "entries m") auto
  with keys have kx: "k = x" by auto
  have "lookup m k' \<noteq> None \<longrightarrow> k' = k" for k'
  proof
    assume "lookup m k' \<noteq> None"
    then have "k' \<in> fst ` set (entries m)"
      by (auto simp add: lookup_def map_of_eq_None_iff)
    with keys kx show "k' = k" by auto
  qed
  moreover have "range_last m = Some v" by (simp add: range_last_def kv)
  moreover have "lookup m k = Some v" by (simp add: lookup_def kv)
  ultimately show ?thesis by blast
qed

lemma GetCloudFromYAML_via_resolve:
  "GetCloudFromYAML p env y =
     (case resolveCloud (optsOrNew p) env y of
        Inl err \<Rightarrow> Inl err
      | Inr cloud \<Rightarrow>
          (case verifyAndRegion (optsOrNew p) (determineCloudName (optsOrNew p) env) cloud of
             Inl err \<Rightarrow> Inl err
           | Inr c \<Rightarrow> Inr (normalizeEndpointType c)))"
  by (simp add: GetCloudFromYAML_def cloudBeforeNormalize_def Let_def split: sum.splits)

lemma mergeSecure_nil: "mergeSecure None name c = Inr c"
  by (simp add: mergeSecure_def)

lemma mergeSecure_empty:
  "mergeSecure (Some []) name c =
     (if c = None then Inl (Errorf (''Could not find cloud '' @ name)) else Inr c)"
  by (simp add: mergeSecure_def lookup_def entries_def len_map_def Let_def)

lemma mergeProfile_public_cong:
  "yaml_LoadPublicCloudsYAML y = yaml_LoadPublicCloudsYAML y' \<Longrightarrow>
   mergeProfile y c = mergeProfile y' c"
  by (cases c) (simp_all add: mergeProfile_def Let_def)

lemma cloudBeforeNormalize_secure_nil_empty:
  "cloudBeforeNormalize p env (y\<lparr>yaml_LoadSecureCloudsYAML := Inr None\<rparr>)
   = cloudBeforeNormalize p env (y\<lparr>yaml_LoadSecureCloudsYAML := Inr (Some [])\<rparr>)"
proof -
  have mp: "mergeProfile (y\<lparr>yaml_LoadSecureCloudsYAML := s\<rparr>) c = mergeProfile y c" for s c
    by (rule mergeProfile_public_cong) simp
  show ?thesis
    by (auto simp add: cloudBeforeNormalize_def resolveCloud_def Let_def mp mergeSecure_nil
        mergeSecure_empty verifyAndRegion_def split: sum.splits option.splits)
qed

lemma lookup_nil_empty: "lookup None k = lookup (Some []) k"
  by (simp add: lookup_def entries_def)

lemma mergeProfile_public_nil_empty:
  "mergeProfile (y\<lparr>yaml_LoadPublicCloudsYAML := Inr None\<rparr>) c
   = mergeProfile (y\<lparr>yaml_LoadPublicCloudsYAML := Inr (Some [])\<rparr>) c"
  by (cases c) (simp_all add: mergeProfile_def Let_def lookup_nil_empty)

lemma cloudBeforeNormalize_public_nil_empty:
  "cloudBeforeNormalize p env (y\<lparr>yaml_LoadPublicCloudsYAML := Inr None\<rparr>)
   = cloudBeforeNormalize p env (y\<lparr>yaml_LoadPublicCloudsYAML := Inr (Some [])\<rparr>)"
  by (auto simp add: cloudBeforeNormalize_def resolveCloud_def Let_def
      mergeProfile_public_nil_empty split: sum.splits)

text \<open>What \<^verbatim>\<open>GetCloudFromYAML\<close> returns, from the selected cloud on.\<close>

lemma GetCloudFromYAML_after_select:
  assumes "yaml_LoadCloudsYAML y = Inr clouds"
  shows "GetCloudFromYAML p env y =
           (case selectCloud clouds (determineCloudName (optsOrNew p) env) of
              Inl err \<Rightarrow> Inl err
            | Inr cloud \<Rightarrow>
                afterSelect (optsOrNew p) (determineCloudName (optsOrNew p) env) y cloud)"
  using assms
  by (simp add: GetCloudFromYAML_via_resolve resolveCloud_def afterSelect_def afterProfile_def
      Let_def split: sum.splits)

lemma mergeSecure_no_entry:
  assumes "lookup secureClouds name = None"
  shows "mergeSecure secureClouds name (Some c) = Inr (Some c)"
  using assms by (simp add: mergeSecure_def Let_def)

lemma regionOverride_no_region:
  "opts_RegionName opts = [] \<Longrightarrow> regionOverride opts c = Inr c"
  by (simp add: regionOverride_def)

lemma verifyAndRegion_no_region:
  "opts_RegionName opts = [] \<Longrightarrow>
   verifyAndRegion opts name (Some c) = Inr (defaultVerify c)"
  by (simp add: verifyAndRegion_def defaultVerify_def regionOverride_no_region)

lemma afterProfile_plain:
  assumes "yaml_LoadSecureCloudsYAML y = Inr secureClouds"
      and "lookup secureClouds name = None"
      and "opts_RegionName opts = []"
  shows "afterProfile opts name y (Some c) = Inr (normalizeEndpointType (defaultVerify c))"
  using assms
  by (simp add: afterProfile_def mergeSecure_no_entry verifyAndRegion_no_region)

lemma mergeProfile_no_profile:
  "defaultIfEmpty (Profile c) (Cloud c) = [] \<Longrightarrow> mergeProfile y (Some c) = Inr (Some c)"
  by (simp add: mergeProfile_def Let_def)




lemma example_result:
  "GetCloudFromYAML (opts_for_cloud ''mycloud'') (env_of [])
     (yaml_documents primary_doc secure_doc public_doc) = Inr mycloud_result"
  by (simp add: get_defs auth_defs example_defs)

subsection \<open>C1: the merge with the secure overlay\<close>




subsection \<open>C2: which cloud is selected\<close>

text \<open>
  C2. Let the primary document be loaded. The cloud name is \<^verbatim>\<open>opts.Cloud\<close> when that is
  non-empty, and otherwise the value of the variable \<^verbatim>\<open>CLOUD\<close> under the prefix
  \<^verbatim>\<open>opts.EnvPrefix\<close>, \<^verbatim>\<open>OS_\<close> by default. With a name, \<^verbatim>\<open>GetCloudFromYAML\<close> fails
  with the error "cloud ... does not exist in clouds.yaml" when the primary document has no
  entry of that name, and otherwise returns what the rest of the resolution (profile, secure
  overlay, \<^verbatim>\<open>Verify\<close>, region, normalisation) makes of that entry. With no name and a
  primary document of exactly one entry, it returns what the rest of the resolution makes of
  that entry. When the selected entry names no profile, the secure document has no entry
  under the name and no region is requested, the returned cloud is the selected entry itself,
  with \<^verbatim>\<open>Verify\<close> defaulted and the endpoint type normalised.
\<close>

theorem cloud_name_precedence:
  assumes "yaml_LoadCloudsYAML y = Inr clouds"
  shows "(let opts = optsOrNew p; name = determineCloudName opts env in
          (opts_Cloud opts \<noteq> [] \<longrightarrow> name = opts_Cloud opts)
        \<and> (opts_Cloud opts = [] \<longrightarrow>
             name = env ((if opts_EnvPrefix opts \<noteq> [] then opts_EnvPrefix opts else ''OS_'')
                         @ ''CLOUD''))
        \<and> (name \<noteq> [] \<longrightarrow>
             (case lookup clouds name of
                None \<Rightarrow>
                  GetCloudFromYAML p env y =
                    Inl (Errorf (''cloud '' @ name @ '' does not exist in clouds.yaml''))
              | Some v \<Rightarrow> GetCloudFromYAML p env y = afterSelect opts name y (Some v)))
        \<and> (name = [] \<and> len_map clouds = 1 \<longrightarrow>
             (\<exists>k v. lookup clouds k = Some v \<and> (\<forall>k'. lookup clouds k' \<noteq> None \<longrightarrow> k' = k)
                    \<and> GetCloudFromYAML p env y = afterSelect opts name y (Some v)))
        \<and> (\<forall>v secureClouds.
              defaultIfEmpty (Profile v) (Cloud v) = []
              \<and> yaml_LoadSecureCloudsYAML y = Inr secureClouds
              \<and> lookup secureClouds name = None
              \<and> opts_RegionName opts = [] \<longrightarrow>
              afterSelect opts name y (Some v) = Inr (normalizeEndpointType (defaultVerify v))))"
proof -
  let ?opts = "optsOrNew p"
  let ?name = "determineCloudName ?opts env"
  note get = GetCloudFromYAML_after_select [OF assms, of p env]
  have n1: "opts_Cloud ?opts \<noteq> [] \<longrightarrow> ?name = opts_Cloud ?opts"
    by (simp add: determineCloudName_def)
  have n2: "opts_Cloud ?opts = [] \<longrightarrow>
      ?name = env ((if opts_EnvPrefix ?opts \<noteq> [] then opts_EnvPrefix ?opts else ''OS_'')
                   @ ''CLOUD'')"
    by (simp add: determineCloudName_def envPrefix_def Let_def)
  have named: "?name \<noteq> [] \<longrightarrow>
      (case lookup clouds ?name of
         None \<Rightarrow>
           GetCloudFromYAML p env y =
             Inl (Errorf (''cloud '' @ ?name @ '' does not exist in clouds.yaml''))
       | Some v \<Rightarrow> GetCloudFromYAML p env y = afterSelect ?opts ?name y (Some v))"
    by (simp add: get selectCloud_def split: option.splits)
  have sole: "?name = [] \<and> len_map clouds = 1 \<longrightarrow>
      (\<exists>k v. lookup clouds k = Some v \<and> (\<forall>k'. lookup clouds k' \<noteq> None \<longrightarrow> k' = k)
             \<and> GetCloudFromYAML p env y = afterSelect ?opts ?name y (Some v))"
  proof
    assume a: "?name = [] \<and> len_map clouds = 1"
    then have one: "len_map clouds = 1" by simp
    from len_map_one [OF one] obtain k v where
      kv: "range_last clouds = Some v" "lookup clouds k = Some v"
          "\<forall>k'. lookup clouds k' \<noteq> None \<longrightarrow> k' = k"
      by blast
    have "selectCloud clouds ?name = Inr (Some v)"
      using a kv(1) by (simp add: selectCloud_def)
    then have "GetCloudFromYAML p env y = afterSelect ?opts ?name y (Some v)"
      by (simp add: get)
    with kv show "\<exists>k v. lookup clouds k = Some v
        \<and> (\<forall>k'. lookup clouds k' \<noteq> None \<longrightarrow> k' = k)
        \<and> GetCloudFromYAML p env y = afterSelect ?opts ?name y (Some v)"
      by blast
  qed
  have plain: "\<forall>v secureClouds.
      defaultIfEmpty (Profile v) (Cloud v) = []
      \<and> yaml_LoadSecureCloudsYAML y = Inr secureClouds
      \<and> lookup secureClouds ?name = None
      \<and> opts_RegionName ?opts = [] \<longrightarrow>
      afterSelect ?opts ?name y (Some v) = Inr (normalizeEndpointType (defaultVerify v))"
    by (simp add: afterSelect_def mergeProfile_no_profile afterProfile_plain)
  from n1 n2 named sole plain show ?thesis
    unfolding Let_def by blast
qed

theorem cloud_name_precedence_witness:
  "determineCloudName (optsOrNew (opts_for_cloud ''other''))
      (env_of [(''OS_CLOUD'', ''mycloud'')]) = ''other''
   \<and> determineCloudName (optsOrNew None) (env_of [(''OS_CLOUD'', ''other'')]) = ''other''
   \<and> lookup primary_doc ''other'' = Some (cloud_with_version ''3'')
   \<and> GetCloudFromYAML None (env_of [(''OS_CLOUD'', ''other'')])
        (yaml_documents primary_doc None None)
       = Inr (MkCloud [] [] None [] [] None [] [] ''3'' [] (Some True) [] [] [])
   \<and> len_map (Some [(''only'', cloud_with_version ''2'')]) = 1
   \<and> GetCloudFromYAML None (env_of [])
        (yaml_documents (Some [(''only'', cloud_with_version ''2'')]) None None)
       = Inr (MkCloud [] [] None [] [] None [] [] ''2'' [] (Some True) [] [] [])
   \<and> lookup primary_doc ''absent'' = None
   \<and> GetCloudFromYAML (opts_for_cloud ''absent'') (env_of [])
        (yaml_documents primary_doc None None)
       = Inl (Errorf ''cloud absent does not exist in clouds.yaml'')"
proof -
  let ?y = "yaml_documents primary_doc None None"
  let ?one = "Some [(''only'', cloud_with_version ''2'')]"
  let ?y1 = "yaml_documents ?one None None"
  let ?e = "env_of [(''OS_CLOUD'', ''other'')]"
  have y: "yaml_LoadCloudsYAML ?y = Inr primary_doc" "yaml_LoadCloudsYAML ?y1 = Inr ?one"
    by (simp_all add: yaml_documents_def)
  have sec: "yaml_LoadSecureCloudsYAML ?y = Inr None" "yaml_LoadSecureCloudsYAML ?y1 = Inr None"
    "lookup None ''other'' = None" "lookup None [] = None"
    by (simp_all add: yaml_documents_def lookup_def entries_def)
  have names:
    "determineCloudName (optsOrNew (opts_for_cloud ''other'')) (env_of [(''OS_CLOUD'', ''mycloud'')])
       = ''other''"
    "determineCloudName (optsOrNew None) ?e = ''other''"
    "determineCloudName (optsOrNew None) (env_of []) = []"
    "determineCloudName (optsOrNew (opts_for_cloud ''absent'')) (env_of []) = ''absent''"
    by (simp_all add: determineCloudName_def optsOrNew_def opts_for_cloud_def ClientOpts_zero_def
        env_of_def envPrefix_def)
  have opts: "opts_RegionName (optsOrNew None) = []" "opts_Cloud (optsOrNew None) = []"
    by (simp_all add: optsOrNew_def ClientOpts_zero_def)
  have l: "lookup primary_doc ''other'' = Some (cloud_with_version ''3'')"
    "lookup primary_doc ''absent'' = None"
    "\<And>k. lookup ?one k = (if k = ''only'' then Some (cloud_with_version ''2'') else None)"
    by (simp_all add: lookup_def entries_def primary_doc_def)
  have one: "len_map ?one = 1"
    by (simp add: len_map_def entries_def)
  have plainv: "defaultIfEmpty (Profile (cloud_with_version v)) (Cloud (cloud_with_version v)) = []"
    "normalizeEndpointType (defaultVerify (cloud_with_version v))
       = MkCloud [] [] None [] [] None [] [] v [] (Some True) [] [] []" for v
    by (simp_all add: defaultIfEmpty_def cloud_with_version_def normalizeEndpointType_def
        defaultVerify_def)
  note t1 = cloud_name_precedence [OF y(1), of
      "opts_for_cloud ''other''" "env_of [(''OS_CLOUD'', ''mycloud'')]", unfolded Let_def]
  note t2 = cloud_name_precedence [OF y(1), of None ?e, unfolded Let_def]
  note t3 = cloud_name_precedence [OF y(2), of None "env_of []", unfolded Let_def]
  note t4 = cloud_name_precedence [OF y(1), of "opts_for_cloud ''absent''" "env_of []",
      unfolded Let_def]
  from t2 have
    "GetCloudFromYAML None ?e ?y = afterSelect (optsOrNew None) ''other'' ?y
       (Some (cloud_with_version ''3''))"
    "afterSelect (optsOrNew None) ''other'' ?y (Some (cloud_with_version ''3''))
       = Inr (normalizeEndpointType (defaultVerify (cloud_with_version ''3'')))"
    using names(2) l(1) sec(1,3) opts(1) plainv(1) by auto
  then have r2: "GetCloudFromYAML None ?e ?y
       = Inr (MkCloud [] [] None [] [] None [] [] ''3'' [] (Some True) [] [] [])"
    by (simp add: plainv(2))
  from t3 names(3) one obtain k v where
    kv: "lookup ?one k = Some v"
        "GetCloudFromYAML None (env_of []) ?y1 = afterSelect (optsOrNew None) [] ?y1 (Some v)"
    by auto
  from kv(1) have v: "v = cloud_with_version ''2''"
    by (simp add: l(3) split: if_splits)
  from t3 have "afterSelect (optsOrNew None) [] ?y1 (Some (cloud_with_version ''2''))
       = Inr (normalizeEndpointType (defaultVerify (cloud_with_version ''2'')))"
    using names(3) sec(2,4) opts(1) plainv(1) by auto
  with kv(2) v have r3: "GetCloudFromYAML None (env_of []) ?y1
       = Inr (MkCloud [] [] None [] [] None [] [] ''2'' [] (Some True) [] [] [])"
    by (simp add: plainv(2))
  from t4 have r4: "GetCloudFromYAML (opts_for_cloud ''absent'') (env_of []) ?y
       = Inl (Errorf ''cloud absent does not exist in clouds.yaml'')"
    using names(4) l(2) by auto
  from t1 names(1,2) l(1,2) one r2 r3 r4 show ?thesis
    by blast
qed

subsection \<open>C3: precedence of the identity API version\<close>

text \<open>
  C3, as the code has it. The identity API version that \<^verbatim>\<open>AuthOptions\<close> dispatches on
  is: the value of the \<^verbatim>\<open>IDENTITY_API_VERSION\<close> variable when that is non-empty; else
  the cloud's \<^verbatim>\<open>IdentityAPIVersion\<close> field; else "3" when the auth URL contains
  \<^verbatim>\<open>v3\<close>; else "2.0" when it contains \<^verbatim>\<open>v2.0\<close>; else "2.0" for the auth types
  \<^verbatim>\<open>v2password\<close> and \<^verbatim>\<open>v2token\<close>; else "3". The environment variable wins over the
  explicit field.
\<close>

theorem determineIdentityAPI_precedence:
  "determineIdentityAPI cloud opts env =
     (let v = env (envPrefix opts @ ''IDENTITY_API_VERSION'') in
      if v \<noteq> [] then v
      else if IdentityAPIVersion cloud \<noteq> [] then IdentityAPIVersion cloud
      else if (case AuthInfo cloud of None \<Rightarrow> False
               | Some a \<Rightarrow> strings_Contains (AuthURL a) ''v3'') then ''3''
      else if (case AuthInfo cloud of None \<Rightarrow> False
               | Some a \<Rightarrow> strings_Contains (AuthURL a) ''v2.0'') then ''2.0''
      else if AuthType cloud = AuthV2Password \<or> AuthType cloud = AuthV2Token then ''2.0''
      else ''3'')"
  by (auto simp add: determineIdentityAPI_def Let_def split: option.splits)

theorem determineIdentityAPI_precedence_witness:
  "determineIdentityAPI (cloud_with_version ''2'') None (env_of []) = ''2''
   \<and> determineIdentityAPI (cloud_with_version []) None
        (env_of [(''OS_IDENTITY_API_VERSION'', ''2.0'')]) = ''2.0''"
  using determineIdentityAPI_precedence [of "cloud_with_version ''2''" None "env_of []"]
    determineIdentityAPI_precedence [of "cloud_with_version []" None
      "env_of [(''OS_IDENTITY_API_VERSION'', ''2.0'')]"]
  by (simp add: cloud_with_version_def env_of_def envPrefix_def)

text \<open>
  The claim as stated fails: with the explicit field set to "3" and the environment variable
  set to "2.0", the version is "2.0", not the field's value.
\<close>

theorem explicit_version_field_loses_counterexample:
  "IdentityAPIVersion (cloud_with_version ''3'') = ''3''
   \<and> determineIdentityAPI (cloud_with_version ''3'') None
        (env_of [(''OS_IDENTITY_API_VERSION'', ''2.0'')]) = ''2.0''"
  by (simp add: determineIdentityAPI_def cloud_with_version_def env_of_def envPrefix_def)

subsection \<open>C4: the identity endpoint is mandatory\<close>

text \<open>
  C4 at an input of the v2 path: the only entry of the primary document sets
  \<^verbatim>\<open>identity_api_version: "2"\<close> and no \<^verbatim>\<open>auth_url\<close>, and the environment is empty.
  \<^verbatim>\<open>AuthOptions\<close> returns options with an empty \<^verbatim>\<open>IdentityEndpoint\<close> and no error,
  where the claim requires the missing-input error for \<^verbatim>\<open>auth_url\<close>.
\<close>

theorem AuthOptions_v2_returns_empty_endpoint:
  "AuthOptions (opts_for_cloud ''legacy'') (env_of [])
     (yaml_documents (Some [(''legacy'', cloud_with_version ''2'')]) None None)
   = Inr \<lparr>ao_IdentityEndpoint = [], ao_Username = [], ao_UserID = [], ao_Password = [],
          ao_DomainID = [], ao_DomainName = [], ao_TenantID = [], ao_TenantName = [],
          ao_AllowReauth = False, ao_TokenID = [], ao_Scope = None,
          ao_ApplicationCredentialID = [], ao_ApplicationCredentialName = [],
          ao_ApplicationCredentialSecret = []\<rparr>"
  by (simp add: get_defs auth_defs example_defs)

subsection \<open>C5: token authentication clears the user and domain options\<close>

text \<open>
  C5 at an input of the v2 path: \<^verbatim>\<open>opts.AuthInfo\<close> holds an auth URL of version 2.0, a
  token, a user name and a password, and the environment is empty. \<^verbatim>\<open>AuthOptions\<close>
  dispatches to \<^verbatim>\<open>v2auth\<close> and returns options that keep \<^verbatim>\<open>Username\<close> and
  \<^verbatim>\<open>Password\<close> beside the non-empty \<^verbatim>\<open>TokenID\<close>, where the claim requires both
  cleared. \<^verbatim>\<open>v3auth\<close> clears them (lines 707 to 718, lemma
  \<open>AuthOptions_token_cleared_on_v3\<close>); \<^verbatim>\<open>v2auth\<close> has no such step.
\<close>

theorem AuthOptions_v2_keeps_username_with_token:
  "AuthOptions (opts_with_auth authinfo_v2_token) (env_of []) (yaml_documents None None None)
   = Inr \<lparr>ao_IdentityEndpoint = ''http://keystone/v2.0'', ao_Username = ''alice'',
          ao_UserID = [], ao_Password = ''pw'', ao_DomainID = [], ao_DomainName = [],
          ao_TenantID = [], ao_TenantName = [], ao_AllowReauth = False, ao_TokenID = ''tok'',
          ao_Scope = None, ao_ApplicationCredentialID = [], ao_ApplicationCredentialName = [],
          ao_ApplicationCredentialSecret = []\<rparr>"
  by (simp add: get_defs auth_defs example_defs)

subsection \<open>C6: application credentials\<close>

text \<open>
  C6, as the code has it. Let the cloud that \<^verbatim>\<open>AuthOptions\<close> authenticates with be
  resolved on the v3 path and have any of \<^verbatim>\<open>ApplicationCredentialID\<close>,
  \<^verbatim>\<open>ApplicationCredentialName\<close> and \<^verbatim>\<open>ApplicationCredentialSecret\<close> non-empty after
  the environment fallback (set in the documents or by the
  \<^verbatim>\<open>APPLICATION_CREDENTIAL_*\<close> variables). Then the call succeeds exactly when the auth
  URL is non-empty after the environment fallback, whatever \<^verbatim>\<open>ProjectID\<close> and
  \<^verbatim>\<open>ProjectName\<close> are; the scope of the result has no field set; and domain defaulting
  is applied: the \<^verbatim>\<open>AuthInfo\<close> becomes \<^verbatim>\<open>setDomainIfNeeded\<close> of itself, in which
  \<^verbatim>\<open>UserDomainID\<close> and \<^verbatim>\<open>ProjectDomainID\<close>, when unset, are filled from a bare
  \<^verbatim>\<open>DomainID\<close>, or from \<^verbatim>\<open>DefaultDomain\<close> when neither the ID nor the name of that
  domain is set, and \<^verbatim>\<open>UserDomainName\<close> and \<^verbatim>\<open>ProjectDomainName\<close>, when unset, are
  filled from a bare \<^verbatim>\<open>DomainName\<close>. The result's \<^verbatim>\<open>DomainID\<close> and
  \<^verbatim>\<open>DomainName\<close> are the defaulted user domain (cleared again under token
  authentication).
\<close>

theorem application_credential_auth:
  assumes "authCloud p env y = Inr cloud"
      and "AuthInfo cloud = Some ai"
      and "determineIdentityAPI cloud (Some (optsOrNew p)) env = ''3''"
      and "isApplicationCredential (v3env env (envPrefix (Some (optsOrNew p))) ai)"
  shows "(let e = v3env env (envPrefix (Some (optsOrNew p))) ai;
              a = setDomainIfNeeded e
          in AuthOptions p env y =
               (if envFallback env (envPrefix (Some (optsOrNew p))) [''AUTH_URL''] (AuthURL ai) = []
                then Inl (ErrMissingInput ''auth_url'')
                else Inr (clearForToken cloud
                       \<lparr>ao_IdentityEndpoint = AuthURL e,
                        ao_Username = Username e,
                        ao_UserID = UserID e,
                        ao_Password = Password e,
                        ao_DomainID = UserDomainID a,
                        ao_DomainName = UserDomainName a,
                        ao_TenantID = ProjectID e,
                        ao_TenantName = ProjectName e,
                        ao_AllowReauth = AllowReauth e,
                        ao_TokenID = Token e,
                        ao_Scope = Some AuthScope_zero,
                        ao_ApplicationCredentialID = ApplicationCredentialID e,
                        ao_ApplicationCredentialName = ApplicationCredentialName e,
                        ao_ApplicationCredentialSecret = ApplicationCredentialSecret e\<rparr>))
             \<and> fst (v3scope e) = a
             \<and> UserDomainID a =
                 (if UserDomainID e \<noteq> [] then UserDomainID e
                  else if DomainID e \<noteq> [] then DomainID e
                  else if DefaultDomain e \<noteq> [] \<and> UserDomainName e = [] \<and> DomainName e = []
                  then DefaultDomain e else [])
             \<and> ProjectDomainID a =
                 (if ProjectDomainID e \<noteq> [] then ProjectDomainID e
                  else if DomainID e \<noteq> [] then DomainID e
                  else if DefaultDomain e \<noteq> [] \<and> ProjectDomainName e = [] \<and> DomainName e = []
                  then DefaultDomain e else [])
             \<and> UserDomainName a =
                 (if UserDomainName e \<noteq> [] then UserDomainName e else DomainName e)
             \<and> ProjectDomainName a =
                 (if ProjectDomainName e \<noteq> [] then ProjectDomainName e else DomainName e))"
proof -
  let ?o = "Some (optsOrNew p)"
  let ?e = "v3env env (envPrefix ?o) ai"
  have app: "isApplicationCredential ?e"
    using assms(4) .
  have sc: "v3scope ?e = (setDomainIfNeeded ?e, AuthScope_zero)"
    using app by (simp add: v3scope_def)
  have url: "AuthURL ?e = envFallback env (envPrefix ?o) [''AUTH_URL''] (AuthURL ai)"
    by (simp add: v3env_def)
  have idem: "ao_IdentityEndpoint (clearForToken cloud r) = ao_IdentityEndpoint r" for r
    by (simp add: clearForToken_def)
  have "AuthOptions p env y = v3auth cloud ?o env"
    using assms(1,3) by (rule AuthOptions_v3)
  also have "\<dots> =
       (if envFallback env (envPrefix ?o) [''AUTH_URL''] (AuthURL ai) = []
        then Inl (ErrMissingInput ''auth_url'')
        else Inr (clearForToken cloud
               \<lparr>ao_IdentityEndpoint = AuthURL ?e,
                ao_Username = Username ?e,
                ao_UserID = UserID ?e,
                ao_Password = Password ?e,
                ao_DomainID = UserDomainID (setDomainIfNeeded ?e),
                ao_DomainName = UserDomainName (setDomainIfNeeded ?e),
                ao_TenantID = ProjectID ?e,
                ao_TenantName = ProjectName ?e,
                ao_AllowReauth = AllowReauth ?e,
                ao_TokenID = Token ?e,
                ao_Scope = Some AuthScope_zero,
                ao_ApplicationCredentialID = ApplicationCredentialID ?e,
                ao_ApplicationCredentialName = ApplicationCredentialName ?e,
                ao_ApplicationCredentialSecret = ApplicationCredentialSecret ?e\<rparr>))"
    using assms(2) url
    by (simp add: v3auth_def sc idem setDomainIfNeeded_others)
  finally have main: "AuthOptions p env y = \<dots>" .
  show ?thesis
    unfolding Let_def
    apply (intro conjI)
         apply (rule main)
        apply (simp add: sc)
       apply (rule setDomainIfNeeded_UserDomainID)
      apply (rule setDomainIfNeeded_ProjectDomainID)
     apply (rule setDomainIfNeeded_UserDomainName)
    apply (rule setDomainIfNeeded_ProjectDomainName)
    done
qed

theorem application_credential_auth_witness:
  "authCloud (opts_with_auth authinfo_no_credential) env_appcred (yaml_documents None None None)
     = Inr (set_AuthInfo (Some authinfo_no_credential) Cloud_zero)
   \<and> \<not> isApplicationCredential authinfo_no_credential
   \<and> isApplicationCredential
        (v3env env_appcred (envPrefix (Some (optsOrNew (opts_with_auth authinfo_no_credential))))
           authinfo_no_credential)
   \<and> AuthOptions (opts_with_auth authinfo_no_credential) env_appcred
        (yaml_documents None None None)
     = Inr \<lparr>ao_IdentityEndpoint = ''http://keystone/v3'', ao_Username = [], ao_UserID = [],
            ao_Password = [], ao_DomainID = ''default'', ao_DomainName = [], ao_TenantID = [],
            ao_TenantName = [], ao_AllowReauth = False, ao_TokenID = [],
            ao_Scope = Some AuthScope_zero, ao_ApplicationCredentialID = ''ac1'',
            ao_ApplicationCredentialName = [], ao_ApplicationCredentialSecret = ''secret''\<rparr>"
proof -
  let ?p = "opts_with_auth authinfo_no_credential"
  let ?c = "set_AuthInfo (Some authinfo_no_credential) Cloud_zero"
  let ?y = "yaml_documents None None None"
  have h1: "authCloud ?p env_appcred ?y = Inr ?c"
    by (simp add: get_defs auth_defs example_defs)
  have h2: "AuthInfo ?c = Some authinfo_no_credential"
    by simp
  have h3: "determineIdentityAPI ?c (Some (optsOrNew ?p)) env_appcred = ''3''"
    by (simp add: get_defs auth_defs example_defs)
  have no: "\<not> isApplicationCredential authinfo_no_credential"
    by (simp add: isApplicationCredential_def authinfo_no_credential_def AuthInfo_zero_def)
  have pre: "envPrefix (Some (optsOrNew ?p)) = ''OS_''"
    by (simp add: envPrefix_def optsOrNew_def opts_with_auth_def ClientOpts_zero_def)
  have e: "v3env env_appcred ''OS_'' authinfo_no_credential
      = AuthInfo_zero\<lparr>AuthURL := ''http://keystone/v3'', DomainID := ''default'',
          ApplicationCredentialID := ''ac1'', ApplicationCredentialSecret := ''secret''\<rparr>"
    by (simp add: v3env_def envFallback_def env_appcred_def env_of_def
        authinfo_no_credential_def AuthInfo_zero_def)
  have h4: "isApplicationCredential (v3env env_appcred (envPrefix (Some (optsOrNew ?p)))
      authinfo_no_credential)"
    unfolding pre e by (simp add: isApplicationCredential_def AuthInfo_zero_def)
  note t = application_credential_auth [OF h1 h2 h3 h4, unfolded Let_def, THEN conjunct1]
  have r: "AuthOptions ?p env_appcred ?y
     = Inr \<lparr>ao_IdentityEndpoint = ''http://keystone/v3'', ao_Username = [], ao_UserID = [],
            ao_Password = [], ao_DomainID = ''default'', ao_DomainName = [], ao_TenantID = [],
            ao_TenantName = [], ao_AllowReauth = False, ao_TokenID = [],
            ao_Scope = Some AuthScope_zero, ao_ApplicationCredentialID = ''ac1'',
            ao_ApplicationCredentialName = [], ao_ApplicationCredentialSecret = ''secret''\<rparr>"
    unfolding t pre e
    by (simp add: envFallback_def env_appcred_def env_of_def authinfo_no_credential_def
        AuthInfo_zero_def setDomainIfNeeded_def clearForToken_def Cloud_zero_def)
  from h1 no h4 r show ?thesis
    by blast
qed

text \<open>
  The claim as stated fails in its defaulting clause. With an application credential and a
  bare \<^verbatim>\<open>DomainName\<close> (no \<^verbatim>\<open>DomainID\<close>, no \<^verbatim>\<open>DefaultDomain\<close>), the unset
  \<^verbatim>\<open>UserDomainID\<close> and \<^verbatim>\<open>ProjectDomainID\<close> stay empty: the name fills
  \<^verbatim>\<open>UserDomainName\<close> and \<^verbatim>\<open>ProjectDomainName\<close>, and the result has an empty
  \<^verbatim>\<open>DomainID\<close>.
\<close>

theorem domain_name_does_not_fill_domain_id_counterexample:
  "isApplicationCredential authinfo_domain_name
   \<and> DomainName authinfo_domain_name = ''Default''
   \<and> UserDomainID authinfo_domain_name = []
   \<and> ProjectDomainID authinfo_domain_name = []
   \<and> UserDomainID (setDomainIfNeeded (v3env (env_of []) ''OS_'' authinfo_domain_name)) = []
   \<and> ProjectDomainID (setDomainIfNeeded (v3env (env_of []) ''OS_'' authinfo_domain_name)) = []
   \<and> UserDomainName (setDomainIfNeeded (v3env (env_of []) ''OS_'' authinfo_domain_name))
       = ''Default''
   \<and> AuthOptions (opts_with_auth authinfo_domain_name) (env_of [])
        (yaml_documents None None None)
     = Inr \<lparr>ao_IdentityEndpoint = ''http://keystone/v3'', ao_Username = [], ao_UserID = [],
            ao_Password = [], ao_DomainID = [], ao_DomainName = ''Default'', ao_TenantID = [],
            ao_TenantName = [], ao_AllowReauth = False, ao_TokenID = [],
            ao_Scope = Some AuthScope_zero, ao_ApplicationCredentialID = ''ac1'',
            ao_ApplicationCredentialName = [], ao_ApplicationCredentialSecret = ''secret''\<rparr>"
proof -
  have e: "v3env (env_of []) ''OS_'' authinfo_domain_name = authinfo_domain_name"
    by (simp add: v3env_def envFallback_def env_of_def authinfo_domain_name_def
        AuthInfo_zero_def)
  have a: "isApplicationCredential authinfo_domain_name"
    "DomainName authinfo_domain_name = ''Default''"
    "UserDomainID authinfo_domain_name = []"
    "ProjectDomainID authinfo_domain_name = []"
    by (simp_all add: isApplicationCredential_def authinfo_domain_name_def AuthInfo_zero_def)
  have d: "UserDomainID (setDomainIfNeeded authinfo_domain_name) = []"
    "ProjectDomainID (setDomainIfNeeded authinfo_domain_name) = []"
    "UserDomainName (setDomainIfNeeded authinfo_domain_name) = ''Default''"
    by (simp_all add: setDomainIfNeeded_UserDomainID setDomainIfNeeded_ProjectDomainID
        setDomainIfNeeded_UserDomainName authinfo_domain_name_def AuthInfo_zero_def)
  let ?p = "opts_with_auth authinfo_domain_name"
  let ?c = "set_AuthInfo (Some authinfo_domain_name) Cloud_zero"
  have h1: "authCloud ?p (env_of []) (yaml_documents None None None) = Inr ?c"
    by (simp add: get_defs auth_defs example_defs)
  have h3: "determineIdentityAPI ?c (Some (optsOrNew ?p)) (env_of []) = ''3''"
    by (simp add: get_defs auth_defs example_defs)
  have pre: "envPrefix (Some (optsOrNew ?p)) = ''OS_''"
    by (simp add: envPrefix_def optsOrNew_def opts_with_auth_def ClientOpts_zero_def)
  have r: "AuthOptions ?p (env_of []) (yaml_documents None None None)
     = Inr \<lparr>ao_IdentityEndpoint = ''http://keystone/v3'', ao_Username = [], ao_UserID = [],
            ao_Password = [], ao_DomainID = [], ao_DomainName = ''Default'', ao_TenantID = [],
            ao_TenantName = [], ao_AllowReauth = False, ao_TokenID = [],
            ao_Scope = Some AuthScope_zero, ao_ApplicationCredentialID = ''ac1'',
            ao_ApplicationCredentialName = [], ao_ApplicationCredentialSecret = ''secret''\<rparr>"
    unfolding AuthOptions_v3 [OF h1 h3]
    by (simp add: v3auth_def pre e v3scope_def a(1))
      (simp add: authinfo_domain_name_def AuthInfo_zero_def setDomainIfNeeded_def
        clearForToken_def Cloud_zero_def AuthScope_zero_def)
  from a d r show ?thesis
    unfolding e by blast
qed

subsection \<open>C7: missing documents\<close>

text \<open>
  C7. When the secure document or the public catalog is not found
  (\<^verbatim>\<open>errors.Is(err, os.ErrNotExist)\<close>), its loader returns no error, and
  \<^verbatim>\<open>GetCloudFromYAML\<close> returns what it returns on an empty document. The loader of the
  primary document returns every read error, file-not-found included, and every error of
  loading the primary document makes \<^verbatim>\<open>GetCloudFromYAML\<close> fail.
\<close>

theorem missing_optional_documents_tolerated:
  "(errors_Is_NotExist err \<longrightarrow>
      LoadSecureCloudsYAML (Inl err) parse = Inr None
      \<and> GetCloudFromYAML p env
            (y\<lparr>yaml_LoadSecureCloudsYAML := LoadSecureCloudsYAML (Inl err) parse\<rparr>)
          = GetCloudFromYAML p env (y\<lparr>yaml_LoadSecureCloudsYAML := Inr (Some [])\<rparr>)
      \<and> LoadPublicCloudsYAML (Inl err) parse = Inr None
      \<and> GetCloudFromYAML p env
            (y\<lparr>yaml_LoadPublicCloudsYAML := LoadPublicCloudsYAML (Inl err) parse\<rparr>)
          = GetCloudFromYAML p env (y\<lparr>yaml_LoadPublicCloudsYAML := Inr (Some [])\<rparr>))
   \<and> LoadCloudsYAML (Inl err) parse = Inl err
   \<and> (yaml_LoadCloudsYAML y = Inl err \<longrightarrow>
        GetCloudFromYAML p env y = Inl (Wrapf ''unable to load clouds.yaml: '' err))"
proof (intro conjI impI)
  assume ne: "errors_Is_NotExist err"
  then show s: "LoadSecureCloudsYAML (Inl err) parse = Inr None"
    by (simp add: LoadSecureCloudsYAML_def)
  from ne show pb: "LoadPublicCloudsYAML (Inl err) parse = Inr None"
    by (simp add: LoadPublicCloudsYAML_def)
  show "GetCloudFromYAML p env
            (y\<lparr>yaml_LoadSecureCloudsYAML := LoadSecureCloudsYAML (Inl err) parse\<rparr>)
          = GetCloudFromYAML p env (y\<lparr>yaml_LoadSecureCloudsYAML := Inr (Some [])\<rparr>)"
    by (simp add: s GetCloudFromYAML_def cloudBeforeNormalize_secure_nil_empty)
  show "GetCloudFromYAML p env
            (y\<lparr>yaml_LoadPublicCloudsYAML := LoadPublicCloudsYAML (Inl err) parse\<rparr>)
          = GetCloudFromYAML p env (y\<lparr>yaml_LoadPublicCloudsYAML := Inr (Some [])\<rparr>)"
    by (simp add: pb GetCloudFromYAML_def cloudBeforeNormalize_public_nil_empty)
next
  show "LoadCloudsYAML (Inl err) parse = Inl err"
    by (simp add: LoadCloudsYAML_def)
next
  assume "yaml_LoadCloudsYAML y = Inl err"
  then show "GetCloudFromYAML p env y = Inl (Wrapf ''unable to load clouds.yaml: '' err)"
    by (simp add: GetCloudFromYAML_via_resolve resolveCloud_def)
qed

theorem missing_optional_documents_tolerated_witness:
  "errors_Is_NotExist (Wrapf ''no secure.yaml file found: '' ErrNotExist)
   \<and> LoadSecureCloudsYAML (Inl (Wrapf ''no secure.yaml file found: '' ErrNotExist))
        parse_primary = Inr None
   \<and> GetCloudFromYAML (opts_for_cloud ''other'') (env_of [])
        (YAMLOpts (Inr ''clouds: ...'') (Inl (Wrapf ''no secure.yaml file found: '' ErrNotExist))
           (Inl (Wrapf ''no secure.yaml file found: '' ErrNotExist))
           parse_primary parse_nothing)
       = Inr (MkCloud [] [] None [] [] None [] [] ''3'' [] (Some True) [] [] [])
   \<and> GetCloudFromYAML (opts_for_cloud ''other'') (env_of [])
        (YAMLOpts (Inl (Wrapf ''no secure.yaml file found: '' ErrNotExist)) (Inr [])
           (Inr []) parse_nothing parse_nothing)
       = Inl (Wrapf ''unable to load clouds.yaml: ''
                (Wrapf ''no secure.yaml file found: '' ErrNotExist))"
proof -
  let ?e = "Wrapf ''no secure.yaml file found: '' ErrNotExist"
  let ?p = "opts_for_cloud ''other''"
  let ?y = "YAMLOpts (Inr ''clouds: ...'') (Inl ?e) (Inl ?e) parse_primary parse_nothing"
  let ?y' = "YAMLOpts (Inl ?e) (Inr []) (Inr []) parse_nothing parse_nothing"
  have ne: "errors_Is_NotExist ?e"
    by simp
  have y: "?y\<lparr>yaml_LoadSecureCloudsYAML := LoadSecureCloudsYAML (Inl ?e) parse_primary\<rparr> = ?y"
    by (simp add: YAMLOpts_def)
  have fatal: "yaml_LoadCloudsYAML ?y' = Inl ?e"
    by (simp add: YAMLOpts_def LoadCloudsYAML_def)
  have r: "GetCloudFromYAML ?p (env_of []) (?y\<lparr>yaml_LoadSecureCloudsYAML := Inr (Some [])\<rparr>)
           = Inr (MkCloud [] [] None [] [] None [] [] ''3'' [] (Some True) [] [] [])"
    by (simp add: YAMLOpts_def LoadCloudsYAML_def LoadPublicCloudsYAML_def get_defs
        example_defs)
  note t = missing_optional_documents_tolerated [of ?e parse_primary ?p "env_of []" ?y]
  note t' = missing_optional_documents_tolerated [of ?e parse_nothing ?p "env_of []" ?y']
  from t ne have s: "LoadSecureCloudsYAML (Inl ?e) parse_primary = Inr None"
    by blast
  from t ne have
    "GetCloudFromYAML ?p (env_of [])
       (?y\<lparr>yaml_LoadSecureCloudsYAML := LoadSecureCloudsYAML (Inl ?e) parse_primary\<rparr>)
     = GetCloudFromYAML ?p (env_of []) (?y\<lparr>yaml_LoadSecureCloudsYAML := Inr (Some [])\<rparr>)"
    by blast
  then have ok: "GetCloudFromYAML ?p (env_of []) ?y
      = Inr (MkCloud [] [] None [] [] None [] [] ''3'' [] (Some True) [] [] [])"
    by (simp only: y r)
  from t' fatal have bad: "GetCloudFromYAML ?p (env_of []) ?y'
      = Inl (Wrapf ''unable to load clouds.yaml: '' ?e)"
    by blast
  from ne s ok bad show ?thesis
    by blast
qed

subsection \<open>C8: the merge with the profile\<close>




subsection \<open>C9: one canonical endpoint-type field\<close>

text \<open>
  C9. Every cloud that \<^verbatim>\<open>GetCloudFromYAML\<close> returns has an empty \<^verbatim>\<open>Interface\<close>. With
  \<open>c0\<close> the cloud before the normalisation, its \<^verbatim>\<open>EndpointType\<close> is the
  \<^verbatim>\<open>Interface\<close> of \<open>c0\<close> when \<open>c0\<close> had \<^verbatim>\<open>EndpointType\<close> unset and
  \<^verbatim>\<open>Interface\<close> set, and the \<^verbatim>\<open>EndpointType\<close> of \<open>c0\<close> otherwise; no other field
  changes.
\<close>

theorem endpoint_type_is_canonical:
  assumes "GetCloudFromYAML p env y = Inr c"
  shows "Interface c = []
       \<and> (case cloudBeforeNormalize p env y of
            Inl err \<Rightarrow> False
          | Inr c0 \<Rightarrow>
              EndpointType c =
                (if EndpointType c0 = [] \<and> Interface c0 \<noteq> [] then Interface c0
                 else EndpointType c0)
              \<and> c = set_Interface [] (set_EndpointType (EndpointType c) c0))"
proof (cases "cloudBeforeNormalize p env y")
  case (Inl err)
  with assms show ?thesis by (simp add: GetCloudFromYAML_def)
next
  case (Inr c0)
  with assms have c: "c = normalizeEndpointType c0"
    by (simp add: GetCloudFromYAML_def)
  show ?thesis
    unfolding c Inr
    by (cases c0) (simp add: normalizeEndpointType_def)
qed

theorem endpoint_type_is_canonical_witness:
  "GetCloudFromYAML (opts_for_cloud ''mycloud'') (env_of [])
     (yaml_documents primary_doc secure_doc public_doc) = Inr mycloud_result
   \<and> Interface mycloud_merged = ''internal'' \<and> EndpointType mycloud_merged = []
   \<and> Interface mycloud_result = [] \<and> EndpointType mycloud_result = ''internal''"
proof -
  have fields: "Interface mycloud_merged = ''internal''" "EndpointType mycloud_merged = []"
    "Interface mycloud_result = []" "EndpointType mycloud_result = ''internal''"
    by (simp_all add: mycloud_merged_def mycloud_result_def)
  from endpoint_type_is_canonical [OF example_result] fields
  show ?thesis
    by (simp add: example_result)
qed

subsection \<open>C10: the single entry of the secure document\<close>

text \<open>
  C10. With no cloud name, a primary document that does not have exactly one entry (so
  that it yields no cloud) and a secure document of exactly one entry,
  \<^verbatim>\<open>GetCloudFromYAML\<close> takes that entry as the cloud and succeeds: it returns the entry
  after the default of \<^verbatim>\<open>Verify\<close>, the region override and the normalisation.
\<close>

theorem secure_single_entry_fallback:
  assumes "yaml_LoadCloudsYAML y = Inr clouds"
      and "determineCloudName (optsOrNew p) env = []"
      and "len_map clouds \<noteq> 1"
      and "yaml_LoadSecureCloudsYAML y = Inr secureClouds"
      and "len_map secureClouds = 1"
  shows "\<exists>k v. lookup secureClouds k = Some v
              \<and> (\<forall>k'. lookup secureClouds k' \<noteq> None \<longrightarrow> k' = k)
              \<and> resolveCloud (optsOrNew p) env y = Inr (Some v)
              \<and> (\<exists>c. verifyAndRegion (optsOrNew p) [] (Some v) = Inr c
                     \<and> GetCloudFromYAML p env y = Inr (normalizeEndpointType c))"
proof -
  from len_map_one [OF assms(5)] obtain k v where
    kv: "range_last secureClouds = Some v" "lookup secureClouds k = Some v"
        "\<forall>k'. lookup secureClouds k' \<noteq> None \<longrightarrow> k' = k"
    by blast
  have notnil: "secureClouds \<noteq> None"
    using kv(2) by (cases secureClouds) (simp_all add: lookup_def entries_def)
  have sel: "selectCloud clouds [] = Inr None"
    using assms(3) by (simp add: selectCloud_def)
  have prof: "mergeProfile y None = Inr None"
    by (simp add: mergeProfile_def)
  have sec: "mergeSecure secureClouds [] None = Inr (Some v)"
  proof (cases "lookup secureClouds []")
    case None
    then show ?thesis
      using notnil assms(5) kv(1) by (simp add: mergeSecure_def Let_def)
  next
    case (Some w)
    with kv(2,3) have "w = v" by (metis option.distinct(1) option.inject)
    with Some show ?thesis
      using notnil assms(5) kv(1)
      by (simp add: mergeSecure_def Let_def mergeClouds_def deref_def mergeCloudFields_idem)
  qed
  have res: "resolveCloud (optsOrNew p) env y = Inr (Some v)"
    using assms(1,2,4) sel prof sec by (simp add: resolveCloud_def Let_def)
  obtain c where c: "verifyAndRegion (optsOrNew p) [] (Some v) = Inr c"
    using regionOverride_total by (auto simp add: verifyAndRegion_def)
  have "GetCloudFromYAML p env y = Inr (normalizeEndpointType c)"
    using res c assms(2) by (simp add: GetCloudFromYAML_via_resolve)
  with kv res c show ?thesis by blast
qed

theorem secure_single_entry_fallback_witness:
  "determineCloudName (optsOrNew None) (env_of []) = []
   \<and> len_map primary_doc = 2
   \<and> len_map secure_doc = 1
   \<and> lookup secure_doc ''mycloud'' = Some mycloud_secure
   \<and> GetCloudFromYAML None (env_of []) (yaml_documents primary_doc secure_doc public_doc)
       = Inr (MkCloud [] [] (Some (AuthInfo_zero\<lparr>Password := ''s3cret''\<rparr>))
                [] [] None [] [] [] [] (Some True) [] [] [])"
proof -
  let ?y = "yaml_documents primary_doc secure_doc public_doc"
  have h1: "yaml_LoadCloudsYAML ?y = Inr primary_doc"
    by (simp add: yaml_documents_def)
  have h2: "determineCloudName (optsOrNew None) (env_of []) = []"
    by (simp add: determineCloudName_def optsOrNew_def ClientOpts_zero_def env_of_def)
  have two: "len_map primary_doc = 2"
    by (simp add: len_map_def entries_def example_defs)
  then have h3: "len_map primary_doc \<noteq> 1"
    by simp
  have h4: "yaml_LoadSecureCloudsYAML ?y = Inr secure_doc"
    by (simp add: yaml_documents_def)
  have h5: "len_map secure_doc = 1"
    by (simp add: len_map_def entries_def example_defs)
  have l: "lookup secure_doc ''mycloud'' = Some mycloud_secure"
    by (simp add: lookup_def entries_def example_defs)
  have r: "GetCloudFromYAML None (env_of []) ?y
       = Inr (MkCloud [] [] (Some (AuthInfo_zero\<lparr>Password := ''s3cret''\<rparr>))
                [] [] None [] [] [] [] (Some True) [] [] [])"
    by (simp add: get_defs example_defs)
  from secure_single_entry_fallback [OF h1 h2 h3 h4 h5] h2 two h5 l r
  show ?thesis
    by simp
qed

end
